theory Spec2Isabelle
  imports Main
begin

section \<open>Python values, exceptions and the two foreign runtimes\<close>

text \<open>
  \<^verbatim>\<open>engine.py\<close> is a binding layer: every operation ends in a call on a JVM object
  reached through py4j, or in a call of the PySpark library. Neither is part of the
  module, so both are parameters of the model (a \<open>world\<close>), and every call that leaves
  the module is recorded in a trace. A py4j \<open>JavaObject\<close> is a reference into the JVM.
\<close>

type_synonym jref = nat

text \<open>A Python exception: its class and its \<open>args\<close> tuple (the message strings).\<close>

datatype exc_class =
  TypeError | IndexError | AttributeError | NameError | Exception | Py4JJavaError

datatype exn = Exn (exc_class: exc_class) (args: "string list")

text \<open>
  The \<open>pyspark.sql.SparkSession\<close> handed to the module. The module reads
  \<open>session._jsparkSession\<close> and \<open>session.sparkContext._gateway.jvm\<close>; the number
  stands for the identity of the Python object.
\<close>

record session =
  session_id :: nat
  jsparkSession :: jref
  sparkContext_gateway_jvm :: jref

text \<open>The classes of the module below \<open>pyspark.sql.DataFrame\<close>.\<close>

datatype cls =
    SourcedDataFrame
  | RepositoriesDataFrame
  | ReferencesDataFrame
  | CommitsDataFrame
  | TreeEntriesDataFrame
  | BlobsDataFrame
  | BlobsWithLanguageDataFrame
  | UASTsDataFrame

text \<open>
  An instance of \<open>SourcedDataFrame\<close> or of one of its subclasses: \<open>cls\<close> is
  \<open>self.__class__\<close>, the other fields are \<open>_jdf\<close>, \<open>_session\<close> and \<open>_implicits\<close>.
\<close>

record proxy =
  cls :: cls
  jdf :: jref
  session :: session
  implicits :: jref

text \<open>An instance of \<open>Engine\<close>, with its name-mangled private attributes.\<close>

record Engine =
  Engine_session :: session
  Engine_jsparkSession :: jref
  Engine_jvm :: jref
  Engine_engine :: jref
  Engine_implicits :: jref

datatype pyval =
    PNone
  | PBool bool
  | PInt int
  | PStr string
  | PList "pyval list"
  | PTuple "pyval list"
  | PJava jref
  | PColumn jref
  | PDataFrame jref session
  | PProxy proxy
  | PEngine Engine

type_synonym kwargs = "(string \<times> pyval) list"

text \<open>A call that leaves the module.\<close>

datatype request =
    Jvm_call jref string "pyval list"
  | Jvm_getattr jref string
  | Py_call string "pyval list" kwargs

text \<open>
  The foreign side. \<open>bridge\<close> answers a request to the JVM, \<open>pyspark\<close> a call of the
  PySpark library (or of py4j's \<open>java_import\<close>); both see the requests made so far, so
  a stateful engine is covered. \<open>DataFrame_attrs\<close> lists the attributes that the
  installed \<open>pyspark.sql.DataFrame\<close> has.
\<close>

record world =
  bridge :: "request list \<Rightarrow> request \<Rightarrow> exn + jref"
  pyspark :: "request list \<Rightarrow> request \<Rightarrow> exn + pyval"
  DataFrame_attrs :: "string list"

text \<open>A computation of the module: it extends the trace and returns or raises.\<close>

type_synonym 'a io = "request list \<Rightarrow> (exn + 'a) \<times> request list"

definition io_return :: "'a \<Rightarrow> 'a io" where
  "io_return x = (\<lambda>tr. (Inr x, tr))"

definition io_raise :: "exn \<Rightarrow> 'a io" where
  "io_raise e = (\<lambda>tr. (Inl e, tr))"

definition io_bind :: "'a io \<Rightarrow> ('a \<Rightarrow> 'b io) \<Rightarrow> 'b io" where
  "io_bind m f = (\<lambda>tr. case m tr of (Inl e, tr') \<Rightarrow> (Inl e, tr') | (Inr x, tr') \<Rightarrow> f x tr')"

definition jvm_request :: "world \<Rightarrow> request \<Rightarrow> jref io" where
  "jvm_request w rq = (\<lambda>tr. (bridge w tr rq, tr @ [rq]))"

definition py_request :: "world \<Rightarrow> request \<Rightarrow> pyval io" where
  "py_request w rq = (\<lambda>tr. (pyspark w tr rq, tr @ [rq]))"

text \<open>\<open>isinstance(x, list)\<close> and Python's \<open>needle in haystack\<close> on strings.\<close>

fun isinstance_list :: "pyval \<Rightarrow> bool" where
  "isinstance_list (PList xs) = True"
| "isinstance_list v = False"

fun startswith :: "string \<Rightarrow> string \<Rightarrow> bool" where
  "startswith s [] = True"
| "startswith [] (p # ps) = False"
| "startswith (c # cs) (p # ps) = (c = p \<and> startswith cs ps)"

fun str_contains :: "string \<Rightarrow> string \<Rightarrow> bool" where
  "str_contains needle [] = (needle = [])"
| "str_contains needle (c # cs) = (startswith (c # cs) needle \<or> str_contains needle cs)"

section \<open>class Engine\<close>

definition package_not_found :: string where
  "package_not_found = ''package \"tech.sourced:engine:<version>\" cannot be found. Please, provide a jar with the package or install the package using --packages''"

text \<open>
  The handler of \<open>Engine.__init__\<close>:
  \<^verbatim>\<open>except TypeError as e:
    if 'JavaPackage' in e.args[0]: raise Exception("package ...")
    else: raise e\<close>
  Any other exception class is not caught. \<open>e.args[0]\<close> on an empty tuple raises
  \<open>IndexError\<close> inside the handler.
\<close>

definition init_handler :: "exn \<Rightarrow> exn" where
  "init_handler e =
     (if exc_class e = TypeError then
        (case args e of
           [] \<Rightarrow> Exn IndexError [''tuple index out of range'']
         | a # _ \<Rightarrow>
             if str_contains ''JavaPackage'' a then Exn Exception [package_not_found]
             else e)
      else e)"

definition Engine_apply_request :: "session \<Rightarrow> string \<Rightarrow> string \<Rightarrow> request" where
  "Engine_apply_request sess repos_path repos_format =
     Jvm_call (sparkContext_gateway_jvm sess) ''tech.sourced.engine.Engine.apply''
       [PJava (jsparkSession sess), PStr repos_path, PStr repos_format]"

definition Engine_init :: "world \<Rightarrow> session \<Rightarrow> string \<Rightarrow> string \<Rightarrow> bool \<Rightarrow> bool \<Rightarrow> Engine io" where
  "Engine_init w sess repos_path repos_format skip_cleanup skip_read_errors =
     io_bind (py_request w (Py_call ''session.conf.set''
        [PJava (jsparkSession sess), PStr ''spark.tech.sourced.engine.repositories.path'', PStr repos_path] [])) (\<lambda>_.
     io_bind (py_request w (Py_call ''session.conf.set''
        [PJava (jsparkSession sess), PStr ''spark.tech.sourced.engine.repositories.format'', PStr repos_format] [])) (\<lambda>_.
     io_bind (py_request w (Py_call ''java_import''
        [PJava (sparkContext_gateway_jvm sess), PStr ''tech.sourced.engine.Engine''] [])) (\<lambda>_.
     io_bind (py_request w (Py_call ''java_import''
        [PJava (sparkContext_gateway_jvm sess), PStr ''tech.sourced.engine.package$''] [])) (\<lambda>_.
     io_bind (\<lambda>tr. case jvm_request w (Engine_apply_request sess repos_path repos_format) tr of
                     (Inl e, tr') \<Rightarrow> (Inl (init_handler e), tr')
                   | (Inr engine, tr') \<Rightarrow> (Inr engine, tr')) (\<lambda>engine.
     io_bind (if skip_cleanup then jvm_request w (Jvm_call engine ''skipCleanup'' [PBool True])
              else io_return engine) (\<lambda>_.
     io_bind (if skip_read_errors then jvm_request w (Jvm_call engine ''skipReadErrors'' [PBool True])
              else io_return engine) (\<lambda>_.
     io_bind (jvm_request w (Jvm_getattr (sparkContext_gateway_jvm sess)
                ''tech.sourced.engine.package$.MODULE$'')) (\<lambda>implicits.
     io_return \<lparr>Engine_session = sess,
                Engine_jsparkSession = jsparkSession sess,
                Engine_jvm = sparkContext_gateway_jvm sess,
                Engine_engine = engine,
                Engine_implicits = implicits\<rparr>))))))))"

definition new :: "cls \<Rightarrow> jref \<Rightarrow> session \<Rightarrow> jref \<Rightarrow> proxy" where
  "new c j s i = \<lparr>cls = c, jdf = j, session = s, implicits = i\<rparr>"

definition Engine_repositories :: "world \<Rightarrow> Engine \<Rightarrow> proxy io" where
  "Engine_repositories w self =
     io_bind (jvm_request w (Jvm_call (Engine_engine self) ''getRepositories'' [])) (\<lambda>j.
     io_return (new RepositoriesDataFrame j (Engine_session self) (Engine_implicits self)))"

definition Engine_blobs :: "world \<Rightarrow> Engine \<Rightarrow> pyval \<Rightarrow> pyval \<Rightarrow> pyval \<Rightarrow> proxy io" where
  "Engine_blobs w self repository_ids reference_names commit_hashes =
     (if \<not> isinstance_list repository_ids then
        io_raise (Exn Exception [''repository_ids must be a list''])
      else if \<not> isinstance_list reference_names then
        io_raise (Exn Exception [''reference_names must be a list''])
      else if \<not> isinstance_list commit_hashes then
        io_raise (Exn Exception [''commit_hashes must be a list''])
      else
        io_bind (jvm_request w (Jvm_call (Engine_engine self) ''getBlobs''
                   [repository_ids, reference_names, commit_hashes])) (\<lambda>j.
        io_return (new BlobsDataFrame j (Engine_session self) (Engine_implicits self))))"

text \<open>
  \<open>from_metadata\<close> ends in \<^verbatim>\<open>return self\<close>; \<open>from_repositories\<close> ends in
  \<^verbatim>\<open>return self.__engine.fromRepositories()\<close>.
\<close>

definition Engine_from_metadata :: "world \<Rightarrow> Engine \<Rightarrow> pyval \<Rightarrow> pyval \<Rightarrow> pyval io" where
  "Engine_from_metadata w self db_path db_name =
     io_bind (jvm_request w (Jvm_call (Engine_engine self) ''fromMetadata'' [db_path, db_name])) (\<lambda>_.
     io_return (PEngine self))"

definition Engine_from_repositories :: "world \<Rightarrow> Engine \<Rightarrow> pyval io" where
  "Engine_from_repositories w self =
     io_bind (jvm_request w (Jvm_call (Engine_engine self) ''fromRepositories'' [])) (\<lambda>v.
     io_return (PJava v))"

section \<open>class SourcedDataFrame\<close>

text \<open>\<open>isinstance(x, DataFrame)\<close>, \<open>isinstance(x, SourcedDataFrame)\<close>, \<open>x.__class__ != SourcedDataFrame\<close>.\<close>

fun isinstance_DataFrame :: "pyval \<Rightarrow> bool" where
  "isinstance_DataFrame (PDataFrame j s) = True"
| "isinstance_DataFrame (PProxy p) = True"
| "isinstance_DataFrame v = False"

fun isinstance_SourcedDataFrame :: "pyval \<Rightarrow> bool" where
  "isinstance_SourcedDataFrame (PProxy p) = True"
| "isinstance_SourcedDataFrame v = False"

fun class_is_not_SourcedDataFrame :: "pyval \<Rightarrow> bool" where
  "class_is_not_SourcedDataFrame (PProxy p) = (cls p \<noteq> SourcedDataFrame)"
| "class_is_not_SourcedDataFrame v = True"

fun class_name :: "cls \<Rightarrow> string" where
  "class_name SourcedDataFrame = ''SourcedDataFrame''"
| "class_name RepositoriesDataFrame = ''RepositoriesDataFrame''"
| "class_name ReferencesDataFrame = ''ReferencesDataFrame''"
| "class_name CommitsDataFrame = ''CommitsDataFrame''"
| "class_name TreeEntriesDataFrame = ''TreeEntriesDataFrame''"
| "class_name BlobsDataFrame = ''BlobsDataFrame''"
| "class_name BlobsWithLanguageDataFrame = ''BlobsWithLanguageDataFrame''"
| "class_name UASTsDataFrame = ''UASTsDataFrame''"

fun type_name :: "pyval \<Rightarrow> string" where
  "type_name PNone = ''NoneType''"
| "type_name (PBool b) = ''bool''"
| "type_name (PInt i) = ''int''"
| "type_name (PStr s) = ''str''"
| "type_name (PList xs) = ''list''"
| "type_name (PTuple xs) = ''tuple''"
| "type_name (PJava j) = ''JavaObject''"
| "type_name (PColumn c) = ''Column''"
| "type_name (PDataFrame j s) = ''DataFrame''"
| "type_name (PProxy p) = class_name (cls p)"
| "type_name (PEngine e) = ''Engine''"

definition quoted :: "string \<Rightarrow> string" where
  "quoted s = CHR 0x27 # s @ [CHR 0x27]"

definition no_attribute :: "pyval \<Rightarrow> string \<Rightarrow> exn" where
  "no_attribute v a =
     Exn AttributeError [quoted (type_name v) @ '' object has no attribute '' @ quoted a]"

text \<open>
  Reading \<open>x._jdf\<close>, \<open>x._session\<close>, \<open>x._implicits\<close>. A plain DataFrame has \<open>_jdf\<close> only.
  (PySpark's DataFrame methods return no bare JavaObject; the model raises on one as on
  the other values that are no DataFrame.)
\<close>

fun getattr_jdf :: "pyval \<Rightarrow> jref io" where
  "getattr_jdf (PDataFrame j s) = io_return j"
| "getattr_jdf (PProxy p) = io_return (jdf p)"
| "getattr_jdf v = io_raise (no_attribute v ''_jdf'')"

fun getattr_session :: "pyval \<Rightarrow> session io" where
  "getattr_session (PProxy p) = io_return (session p)"
| "getattr_session v = io_raise (no_attribute v ''_session'')"

fun getattr_implicits :: "pyval \<Rightarrow> jref io" where
  "getattr_implicits (PProxy p) = io_return (implicits p)"
| "getattr_implicits v = io_raise (no_attribute v ''_implicits'')"

fun getattr_class :: "pyval \<Rightarrow> cls io" where
  "getattr_class (PProxy p) = io_return (cls p)"
| "getattr_class v = io_raise (no_attribute v ''__class__'')"

text \<open>
  \<^verbatim>\<open>func = getattr(DataFrame, name)\<close>, or, when the installed PySpark has no such
  attribute, the stub \<^verbatim>\<open>def func(self, *args, **kwargs): raise e\<close>. Python 3 unbinds
  \<open>e\<close> when the \<open>except\<close> block is left, so that calling the stub raises \<open>NameError\<close>
  for the free variable (Python 2 would raise the \<open>AttributeError\<close> of the lookup).
\<close>

definition DataFrame_func :: "world \<Rightarrow> string \<Rightarrow> pyval \<Rightarrow> pyval list \<Rightarrow> kwargs \<Rightarrow> pyval io" where
  "DataFrame_func w name self a k =
     (if name \<in> set (DataFrame_attrs w) then
        py_request w (Py_call (''DataFrame.'' @ name) (self # a) k)
      else
        io_raise (Exn NameError
          [''free variable '' @ quoted ''e''
             @ '' referenced before assignment in enclosing scope'']))"

text \<open>
  \<open>__generate_method(name)\<close>. With the lookup failed, the stub itself is returned;
  otherwise \<open>_wrapper\<close>:
  \<^verbatim>\<open>dataframe = func(self, *args, **kwargs)
if self.__class__ != SourcedDataFrame \
        and isinstance(self, SourcedDataFrame) \
        and isinstance(dataframe, DataFrame):
    return self.__class__(dataframe._jdf, self._session, self._implicits)
return dataframe\<close>
\<close>

definition wrapper :: "world \<Rightarrow> string \<Rightarrow> pyval \<Rightarrow> pyval list \<Rightarrow> kwargs \<Rightarrow> pyval io" where
  "wrapper w name self a k =
     io_bind (DataFrame_func w name self a k) (\<lambda>dataframe.
       if class_is_not_SourcedDataFrame self
          \<and> isinstance_SourcedDataFrame self
          \<and> isinstance_DataFrame dataframe
       then
         io_bind (getattr_class self) (\<lambda>c.
         io_bind (getattr_jdf dataframe) (\<lambda>j.
         io_bind (getattr_session self) (\<lambda>s.
         io_bind (getattr_implicits self) (\<lambda>i.
         io_return (PProxy (new c j s i))))))
       else io_return dataframe)"

definition generate_method :: "world \<Rightarrow> string \<Rightarrow> pyval \<Rightarrow> pyval list \<Rightarrow> kwargs \<Rightarrow> pyval io" where
  "generate_method w name =
     (if name \<in> set (DataFrame_attrs w) then wrapper w name else DataFrame_func w name)"

text \<open>
  The class body of \<open>SourcedDataFrame\<close>: each attribute with the name of the
  \<open>DataFrame\<close> method it wraps, the three aliases included.
\<close>

definition SourcedDataFrame_methods :: "(string \<times> string) list" where
  "SourcedDataFrame_methods =
   [(''alias'', ''alias''),
    (''checkpoint'', ''checkpoint''),
    (''coalesce'', ''coalesce''),
    (''crossJoin'', ''crossJoin''),
    (''crosstab'', ''crosstab''),
    (''describe'', ''describe''),
    (''distinct'', ''distinct''),
    (''dropDuplicates'', ''dropDuplicates''),
    (''drop_duplicates'', ''dropDuplicates''),
    (''drop'', ''drop''),
    (''dropna'', ''dropna''),
    (''fillna'', ''fillna''),
    (''filter'', ''filter''),
    (''freqItems'', ''freqItems''),
    (''hint'', ''hint''),
    (''intersect'', ''intersect''),
    (''join'', ''join''),
    (''limit'', ''limit''),
    (''randomSplit'', ''randomSplit''),
    (''repartition'', ''repartition''),
    (''replace'', ''replace''),
    (''sampleBy'', ''sampleBy''),
    (''sample'', ''sample''),
    (''selectExpr'', ''selectExpr''),
    (''select'', ''select''),
    (''sort'', ''sort''),
    (''orderBy'', ''sort''),
    (''sortWithinPartitions'', ''sortWithinPartitions''),
    (''subtract'', ''subtract''),
    (''summary'', ''summary''),
    (''toDF'', ''toDF''),
    (''unionByName'', ''unionByName''),
    (''union'', ''union''),
    (''where'', ''filter''),
    (''withColumn'', ''withColumn''),
    (''withColumnRenamed'', ''withColumnRenamed''),
    (''withWatermark'', ''withWatermark'')]"

text \<open>
  Looking an attribute up on an instance: the class body's entry when there is one,
  otherwise the method inherited from \<open>DataFrame\<close>, unwrapped.
\<close>

definition SourcedDataFrame_getattr :: "world \<Rightarrow> string \<Rightarrow> pyval \<Rightarrow> pyval list \<Rightarrow> kwargs \<Rightarrow> pyval io" where
  "SourcedDataFrame_getattr w attr =
     (case map_of SourcedDataFrame_methods attr of
        Some name \<Rightarrow> generate_method w name
      | None \<Rightarrow> DataFrame_func w attr)"

definition SourcedDataFrame_filter :: "world \<Rightarrow> pyval \<Rightarrow> pyval list \<Rightarrow> kwargs \<Rightarrow> pyval io" where
  "SourcedDataFrame_filter w = generate_method w ''filter''"

text \<open>The property \<open>_engine_dataframe\<close>: \<^verbatim>\<open>self._implicits.EngineDataFrame(self._jdf)\<close>.\<close>

definition engine_dataframe :: "world \<Rightarrow> proxy \<Rightarrow> jref io" where
  "engine_dataframe w self =
     jvm_request w (Jvm_call (implicits self) ''EngineDataFrame'' [PJava (jdf self)])"

section \<open>The navigation methods of the subclasses\<close>

text \<open>
  Each method is written out as in the source: the engine view of the handle, the
  request, the constructor of the result with \<open>self._session\<close> and \<open>self._implicits\<close>.
\<close>

subsection \<open>class RepositoriesDataFrame\<close>

definition RepositoriesDataFrame_references :: "world \<Rightarrow> proxy \<Rightarrow> proxy io" where
  "RepositoriesDataFrame_references w self =
     io_bind (engine_dataframe w self) (\<lambda>e.
     io_bind (jvm_request w (Jvm_call e ''getReferences'' [])) (\<lambda>j.
     io_return (new ReferencesDataFrame j (session self) (implicits self))))"

definition RepositoriesDataFrame_remote_references :: "world \<Rightarrow> proxy \<Rightarrow> proxy io" where
  "RepositoriesDataFrame_remote_references w self =
     io_bind (engine_dataframe w self) (\<lambda>e.
     io_bind (jvm_request w (Jvm_call e ''getRemoteReferences'' [])) (\<lambda>j.
     io_return (new ReferencesDataFrame j (session self) (implicits self))))"

text \<open>
  \<open>head_ref\<close> and \<open>master_ref\<close> of this class have the same body:
  \<^verbatim>\<open>ReferencesDataFrame(self._engine_dataframe.getReferences().getHEAD(), ...)\<close>.
\<close>

definition RepositoriesDataFrame_head_ref :: "world \<Rightarrow> proxy \<Rightarrow> proxy io" where
  "RepositoriesDataFrame_head_ref w self =
     io_bind (engine_dataframe w self) (\<lambda>e.
     io_bind (jvm_request w (Jvm_call e ''getReferences'' [])) (\<lambda>r.
     io_bind (jvm_request w (Jvm_call r ''getHEAD'' [])) (\<lambda>j.
     io_return (new ReferencesDataFrame j (session self) (implicits self)))))"

definition RepositoriesDataFrame_master_ref :: "world \<Rightarrow> proxy \<Rightarrow> proxy io" where
  "RepositoriesDataFrame_master_ref w self =
     io_bind (engine_dataframe w self) (\<lambda>e.
     io_bind (jvm_request w (Jvm_call e ''getReferences'' [])) (\<lambda>r.
     io_bind (jvm_request w (Jvm_call r ''getHEAD'' [])) (\<lambda>j.
     io_return (new ReferencesDataFrame j (session self) (implicits self)))))"

subsection \<open>class ReferencesDataFrame\<close>

definition ReferencesDataFrame_remote_references :: "world \<Rightarrow> proxy \<Rightarrow> proxy io" where
  "ReferencesDataFrame_remote_references w self =
     io_bind (engine_dataframe w self) (\<lambda>e.
     io_bind (jvm_request w (Jvm_call e ''getRemoteReferences'' [])) (\<lambda>j.
     io_return (new ReferencesDataFrame j (session self) (implicits self))))"

definition ReferencesDataFrame_head_ref :: "world \<Rightarrow> proxy \<Rightarrow> proxy io" where
  "ReferencesDataFrame_head_ref w self =
     io_bind (engine_dataframe w self) (\<lambda>e.
     io_bind (jvm_request w (Jvm_call e ''getHEAD'' [])) (\<lambda>j.
     io_return (new ReferencesDataFrame j (session self) (implicits self))))"

text \<open>The second \<^verbatim>\<open>return self.ref('refs/heads/master')\<close> of \<open>master_ref\<close> is never reached.\<close>

definition ReferencesDataFrame_master_ref :: "world \<Rightarrow> proxy \<Rightarrow> proxy io" where
  "ReferencesDataFrame_master_ref w self =
     io_bind (engine_dataframe w self) (\<lambda>e.
     io_bind (jvm_request w (Jvm_call e ''getMaster'' [])) (\<lambda>j.
     io_return (new ReferencesDataFrame j (session self) (implicits self))))"

text \<open>
  \<^verbatim>\<open>ReferencesDataFrame(self.filter(self.name == ref)._jdf, self._session, self._implicits)\<close>:
  \<open>self.name\<close> is PySpark's column lookup, \<open>==\<close> PySpark's column comparison, and
  \<open>self.filter\<close> the wrapped generic method of \<open>SourcedDataFrame\<close>.
\<close>

definition ReferencesDataFrame_ref :: "world \<Rightarrow> proxy \<Rightarrow> pyval \<Rightarrow> proxy io" where
  "ReferencesDataFrame_ref w self ref =
     io_bind (py_request w (Py_call ''DataFrame.__getattr__'' [PProxy self, PStr ''name''] [])) (\<lambda>name.
     io_bind (py_request w (Py_call ''Column.__eq__'' [name, ref] [])) (\<lambda>cond.
     io_bind (SourcedDataFrame_filter w (PProxy self) [cond] []) (\<lambda>filtered.
     io_bind (getattr_jdf filtered) (\<lambda>j.
     io_return (new ReferencesDataFrame j (session self) (implicits self))))))"

definition ReferencesDataFrame_all_reference_commits :: "world \<Rightarrow> proxy \<Rightarrow> proxy io" where
  "ReferencesDataFrame_all_reference_commits w self =
     io_bind (engine_dataframe w self) (\<lambda>e.
     io_bind (jvm_request w (Jvm_call e ''getAllReferenceCommits'' [])) (\<lambda>j.
     io_return (new CommitsDataFrame j (session self) (implicits self))))"

definition ReferencesDataFrame_commits :: "world \<Rightarrow> proxy \<Rightarrow> proxy io" where
  "ReferencesDataFrame_commits w self =
     io_bind (engine_dataframe w self) (\<lambda>e.
     io_bind (jvm_request w (Jvm_call e ''getCommits'' [])) (\<lambda>j.
     io_return (new CommitsDataFrame j (session self) (implicits self))))"

definition ReferencesDataFrame_blobs :: "world \<Rightarrow> proxy \<Rightarrow> proxy io" where
  "ReferencesDataFrame_blobs w self =
     io_bind (engine_dataframe w self) (\<lambda>e.
     io_bind (jvm_request w (Jvm_call e ''getBlobs'' [])) (\<lambda>j.
     io_return (new BlobsDataFrame j (session self) (implicits self))))"

subsection \<open>class CommitsDataFrame\<close>

definition CommitsDataFrame_all_reference_commits :: "world \<Rightarrow> proxy \<Rightarrow> proxy io" where
  "CommitsDataFrame_all_reference_commits w self =
     io_bind (engine_dataframe w self) (\<lambda>e.
     io_bind (jvm_request w (Jvm_call e ''getAllReferenceCommits'' [])) (\<lambda>j.
     io_return (new CommitsDataFrame j (session self) (implicits self))))"

definition CommitsDataFrame_tree_entries :: "world \<Rightarrow> proxy \<Rightarrow> proxy io" where
  "CommitsDataFrame_tree_entries w self =
     io_bind (engine_dataframe w self) (\<lambda>e.
     io_bind (jvm_request w (Jvm_call e ''getTreeEntries'' [])) (\<lambda>j.
     io_return (new TreeEntriesDataFrame j (session self) (implicits self))))"

definition CommitsDataFrame_blobs :: "world \<Rightarrow> proxy \<Rightarrow> proxy io" where
  "CommitsDataFrame_blobs w self =
     io_bind (engine_dataframe w self) (\<lambda>e.
     io_bind (jvm_request w (Jvm_call e ''getBlobs'' [])) (\<lambda>j.
     io_return (new BlobsDataFrame j (session self) (implicits self))))"

subsection \<open>class TreeEntriesDataFrame\<close>

definition TreeEntriesDataFrame_blobs :: "world \<Rightarrow> proxy \<Rightarrow> proxy io" where
  "TreeEntriesDataFrame_blobs w self =
     io_bind (engine_dataframe w self) (\<lambda>e.
     io_bind (jvm_request w (Jvm_call e ''getBlobs'' [])) (\<lambda>j.
     io_return (new BlobsDataFrame j (session self) (implicits self))))"

subsection \<open>class BlobsDataFrame\<close>

definition BlobsDataFrame_classify_languages :: "world \<Rightarrow> proxy \<Rightarrow> proxy io" where
  "BlobsDataFrame_classify_languages w self =
     io_bind (engine_dataframe w self) (\<lambda>e.
     io_bind (jvm_request w (Jvm_call e ''classifyLanguages'' [])) (\<lambda>j.
     io_return (new BlobsWithLanguageDataFrame j (session self) (implicits self))))"

definition BlobsDataFrame_extract_uasts :: "world \<Rightarrow> proxy \<Rightarrow> proxy io" where
  "BlobsDataFrame_extract_uasts w self =
     io_bind (engine_dataframe w self) (\<lambda>e.
     io_bind (jvm_request w (Jvm_call e ''extractUASTs'' [])) (\<lambda>j.
     io_return (new UASTsDataFrame j (session self) (implicits self))))"

subsection \<open>class BlobsWithLanguageDataFrame\<close>

definition BlobsWithLanguageDataFrame_extract_uasts :: "world \<Rightarrow> proxy \<Rightarrow> proxy io" where
  "BlobsWithLanguageDataFrame_extract_uasts w self =
     io_bind (engine_dataframe w self) (\<lambda>e.
     io_bind (jvm_request w (Jvm_call e ''extractUASTs'' [])) (\<lambda>j.
     io_return (new UASTsDataFrame j (session self) (implicits self))))"

subsection \<open>class UASTsDataFrame\<close>

text \<open>The defaults are \<open>query_col='uast'\<close>, \<open>output_col='result'\<close> and \<open>input_col='result'\<close>, \<open>output_col='tokens'\<close>.\<close>

definition UASTsDataFrame_query_uast :: "world \<Rightarrow> proxy \<Rightarrow> pyval \<Rightarrow> pyval \<Rightarrow> pyval \<Rightarrow> proxy io" where
  "UASTsDataFrame_query_uast w self query query_col output_col =
     io_bind (engine_dataframe w self) (\<lambda>e.
     io_bind (jvm_request w (Jvm_call e ''queryUAST'' [query, query_col, output_col])) (\<lambda>j.
     io_return (new UASTsDataFrame j (session self) (implicits self))))"

definition UASTsDataFrame_extract_tokens :: "world \<Rightarrow> proxy \<Rightarrow> pyval \<Rightarrow> pyval \<Rightarrow> proxy io" where
  "UASTsDataFrame_extract_tokens w self input_col output_col =
     io_bind (engine_dataframe w self) (\<lambda>e.
     io_bind (jvm_request w (Jvm_call e ''extractTokens'' [input_col, output_col])) (\<lambda>j.
     io_return (new UASTsDataFrame j (session self) (implicits self))))"

subsection \<open>Attribute resolution\<close>

text \<open>The navigation attributes, with the arguments of the three that are methods with parameters.\<close>

datatype nav =
    References
  | Remote_references
  | Head_ref
  | Master_ref
  | Ref pyval
  | All_reference_commits
  | Commits
  | Tree_entries
  | Blobs
  | Classify_languages
  | Extract_uasts
  | Query_uast pyval pyval pyval
  | Extract_tokens pyval pyval

text \<open>Which function a class defines under a navigation attribute, if any.\<close>

definition resolve :: "cls \<Rightarrow> nav \<Rightarrow> (world \<Rightarrow> proxy \<Rightarrow> proxy io) option" where
  "resolve c n =
     (case c of
        SourcedDataFrame \<Rightarrow> None
      | RepositoriesDataFrame \<Rightarrow>
          (case n of
             References \<Rightarrow> Some RepositoriesDataFrame_references
           | Remote_references \<Rightarrow> Some RepositoriesDataFrame_remote_references
           | Head_ref \<Rightarrow> Some RepositoriesDataFrame_head_ref
           | Master_ref \<Rightarrow> Some RepositoriesDataFrame_master_ref
           | _ \<Rightarrow> None)
      | ReferencesDataFrame \<Rightarrow>
          (case n of
             Remote_references \<Rightarrow> Some ReferencesDataFrame_remote_references
           | Head_ref \<Rightarrow> Some ReferencesDataFrame_head_ref
           | Master_ref \<Rightarrow> Some ReferencesDataFrame_master_ref
           | Ref r \<Rightarrow> Some (\<lambda>w self. ReferencesDataFrame_ref w self r)
           | All_reference_commits \<Rightarrow> Some ReferencesDataFrame_all_reference_commits
           | Commits \<Rightarrow> Some ReferencesDataFrame_commits
           | Blobs \<Rightarrow> Some ReferencesDataFrame_blobs
           | _ \<Rightarrow> None)
      | CommitsDataFrame \<Rightarrow>
          (case n of
             All_reference_commits \<Rightarrow> Some CommitsDataFrame_all_reference_commits
           | Tree_entries \<Rightarrow> Some CommitsDataFrame_tree_entries
           | Blobs \<Rightarrow> Some CommitsDataFrame_blobs
           | _ \<Rightarrow> None)
      | TreeEntriesDataFrame \<Rightarrow>
          (case n of
             Blobs \<Rightarrow> Some TreeEntriesDataFrame_blobs
           | _ \<Rightarrow> None)
      | BlobsDataFrame \<Rightarrow>
          (case n of
             Classify_languages \<Rightarrow> Some BlobsDataFrame_classify_languages
           | Extract_uasts \<Rightarrow> Some BlobsDataFrame_extract_uasts
           | _ \<Rightarrow> None)
      | BlobsWithLanguageDataFrame \<Rightarrow>
          (case n of
             Extract_uasts \<Rightarrow> Some BlobsWithLanguageDataFrame_extract_uasts
           | _ \<Rightarrow> None)
      | UASTsDataFrame \<Rightarrow>
          (case n of
             Query_uast q qc oc \<Rightarrow> Some (\<lambda>w self. UASTsDataFrame_query_uast w self q qc oc)
           | Extract_tokens ic oc \<Rightarrow> Some (\<lambda>w self. UASTsDataFrame_extract_tokens w self ic oc)
           | _ \<Rightarrow> None))"

text \<open>The \<open>:rtype:\<close> that the docstrings declare for a navigation attribute.\<close>

fun rtype :: "nav \<Rightarrow> cls" where
  "rtype References = ReferencesDataFrame"
| "rtype Remote_references = ReferencesDataFrame"
| "rtype Head_ref = ReferencesDataFrame"
| "rtype Master_ref = ReferencesDataFrame"
| "rtype (Ref r) = ReferencesDataFrame"
| "rtype All_reference_commits = CommitsDataFrame"
| "rtype Commits = CommitsDataFrame"
| "rtype Tree_entries = TreeEntriesDataFrame"
| "rtype Blobs = BlobsDataFrame"
| "rtype Classify_languages = BlobsWithLanguageDataFrame"
| "rtype Extract_uasts = UASTsDataFrame"
| "rtype (Query_uast q qc oc) = UASTsDataFrame"
| "rtype (Extract_tokens ic oc) = UASTsDataFrame"

section \<open>Test doubles and the notions the statements use\<close>

definition session0 :: session where
  "session0 = \<lparr>session_id = 0, jsparkSession = 1, sparkContext_gateway_jvm = 2\<rparr>"

text \<open>
  A double of the foreign side that answers every request and ignores the history.
  \<open>EngineDataFrame\<close> gives the view of the handle it is applied to, \<open>getHEAD\<close> and
  PySpark's \<open>filter\<close> both answer with the handle plus 1000.
\<close>

definition engine_double :: world where
  "engine_double =
     \<lparr>bridge = (\<lambda>tr rq. case rq of
          Jvm_call r name a \<Rightarrow>
            if name = ''EngineDataFrame'' then (case a of [PJava j] \<Rightarrow> Inr j | _ \<Rightarrow> Inr 0)
            else if name = ''getHEAD'' then Inr (r + 1000)
            else Inr (r + length name)
        | Jvm_getattr r name \<Rightarrow> Inr (r + 1)
        | Py_call name a k \<Rightarrow> Inr 0),
      pyspark = (\<lambda>tr rq. case rq of
          Py_call name a k \<Rightarrow>
            if name = ''DataFrame.filter'' then
              (case a of PProxy p # _ \<Rightarrow> Inr (PDataFrame (jdf p + 1000) (session p))
                       | _ \<Rightarrow> Inr (PDataFrame 0 session0))
            else Inr (PColumn 0)
        | _ \<Rightarrow> Inr PNone),
      DataFrame_attrs = map snd SourcedDataFrame_methods\<rparr>"

definition engine0 :: Engine where
  "engine0 = \<lparr>Engine_session = session0, Engine_jsparkSession = 1, Engine_jvm = 2,
              Engine_engine = 3, Engine_implicits = 4\<rparr>"

text \<open>The parameter that the first failing check of \<open>Engine.blobs\<close> names.\<close>

definition offending_parameter :: "pyval \<Rightarrow> pyval \<Rightarrow> pyval \<Rightarrow> string" where
  "offending_parameter repository_ids reference_names commit_hashes =
     (if \<not> isinstance_list repository_ids then ''repository_ids''
      else if \<not> isinstance_list reference_names then ''reference_names''
      else ''commit_hashes'')"

text \<open>
  The requests that a computation adds to the trace, and two kinds of request: a request
  to the JVM for a derived handle (any method call but \<open>EngineDataFrame\<close>, which only
  gives the engine's view of the handle it is passed), and a call of the PySpark library.
\<close>

definition requests_of :: "'a io \<Rightarrow> request list \<Rightarrow> request list" where
  "requests_of m tr = drop (length tr) (snd (m tr))"

definition derived_handle_request :: "request \<Rightarrow> bool" where
  "derived_handle_request rq =
     (case rq of Jvm_call r name a \<Rightarrow> name \<noteq> ''EngineDataFrame'' | _ \<Rightarrow> False)"

definition library_call :: "request \<Rightarrow> bool" where
  "library_call rq = (case rq of Py_call name a k \<Rightarrow> True | _ \<Rightarrow> False)"

definition repos0 :: proxy where
  "repos0 = new RepositoriesDataFrame 10 session0 4"

definition refs0 :: proxy where
  "refs0 = new ReferencesDataFrame 20 session0 4"

definition blobs0 :: proxy where
  "blobs0 = new BlobsDataFrame 30 session0 4"


text \<open>
  How many derived-handle requests and how many PySpark calls the source of a
  navigation method of class \<open>c\<close> makes when it returns: \<open>ref\<close> goes through
  PySpark's column lookup, comparison and \<open>filter\<close>; \<open>head_ref\<close> and \<open>master_ref\<close> of
  \<open>RepositoriesDataFrame\<close> chain \<open>getReferences\<close> and \<open>getHEAD\<close>; every other one
  makes one request.
\<close>

definition engine_requests :: "cls \<Rightarrow> nav \<Rightarrow> nat" where
  "engine_requests c n =
     (case n of
        Ref r \<Rightarrow> 0
      | Head_ref \<Rightarrow> (if c = RepositoriesDataFrame then 2 else 1)
      | Master_ref \<Rightarrow> (if c = RepositoriesDataFrame then 2 else 1)
      | _ \<Rightarrow> 1)"

definition library_calls :: "nav \<Rightarrow> nat" where
  "library_calls n = (case n of Ref r \<Rightarrow> 3 | _ \<Rightarrow> 0)"

text \<open>
  A foreign side that raises nothing, whose \<open>DataFrame\<close> has \<open>filter\<close>, and whose
  \<open>filter\<close> returns a DataFrame.
\<close>

definition answers :: "world \<Rightarrow> bool" where
  "answers w =
     ((\<forall>tr rq. \<exists>j. bridge w tr rq = Inr j)
      \<and> (\<forall>tr rq. \<exists>v. pyspark w tr rq = Inr v)
      \<and> (\<forall>tr a k. \<exists>j s. pyspark w tr (Py_call ''DataFrame.filter'' a k) = Inr (PDataFrame j s))
      \<and> ''filter'' \<in> set (DataFrame_attrs w))"

text \<open>
  The condition under which the handler of \<open>Engine.__init__\<close> reports the missing package:
  a \<open>TypeError\<close> whose first argument contains \<open>JavaPackage\<close>.
\<close>

definition component_missing :: "exn \<Rightarrow> bool" where
  "component_missing e =
     (exc_class e = TypeError
      \<and> (case args e of [] \<Rightarrow> False | a # _ \<Rightarrow> str_contains ''JavaPackage'' a))"

text \<open>
  A bridge whose exceptions carry a message, as those of py4j do: its own errors are
  raised with one, and the \<open>TypeError\<close> of the interpreter for a package that was not
  loaded is \<^verbatim>\<open>'JavaPackage' object is not callable\<close>.
\<close>

definition carries_message :: "world \<Rightarrow> bool" where
  "carries_message w = (\<forall>tr rq e. bridge w tr rq = Inl e \<longrightarrow> args e \<noteq> [])"

text \<open>What the foreign side raised at the last request of a trace, if it raised there.\<close>

definition raised :: "world \<Rightarrow> request list \<Rightarrow> request \<Rightarrow> exn option" where
  "raised w tr rq =
     (case rq of
        Py_call name a k \<Rightarrow> (case pyspark w tr rq of Inl e \<Rightarrow> Some e | Inr v \<Rightarrow> None)
      | _ \<Rightarrow> (case bridge w tr rq of Inl e \<Rightarrow> Some e | Inr j \<Rightarrow> None))"

definition last_raised :: "world \<Rightarrow> request list \<Rightarrow> exn option" where
  "last_raised w tr = (if tr = [] then None else raised w (butlast tr) (last tr))"

text \<open>A bridge on which the engine's package is not loaded.\<close>

definition JavaPackage_not_callable :: string where
  "JavaPackage_not_callable = quoted ''JavaPackage'' @ '' object is not callable''"

definition missing_package_double :: world where
  "missing_package_double =
     engine_double\<lparr>bridge := (\<lambda>tr rq. Inl (Exn TypeError [JavaPackage_not_callable]))\<rparr>"




section \<open>How a computation returns\<close>

lemma io_bind_returns:
  "(io_bind m f tr = (Inr r, tr'')) = (\<exists>x tr'. m tr = (Inr x, tr') \<and> f x tr' = (Inr r, tr''))"
proof (cases "m tr")
  case (Pair res tr1)
  then show ?thesis by (cases res) (simp_all add: io_bind_def)
qed

lemma io_return_returns: "(io_return x tr = (Inr r, tr')) = (r = x \<and> tr' = tr)"
  by (auto simp: io_return_def)

lemma io_raise_returns: "(io_raise e tr = (Inr r, tr')) = False"
  by (simp add: io_raise_def)

lemma jvm_request_returns:
  "(jvm_request w rq tr = (Inr j, tr')) = (bridge w tr rq = Inr j \<and> tr' = tr @ [rq])"
  by (auto simp: jvm_request_def)

lemma py_request_returns:
  "(py_request w rq tr = (Inr v, tr')) = (pyspark w tr rq = Inr v \<and> tr' = tr @ [rq])"
  by (auto simp: py_request_def)

lemma getattr_jdf_returns:
  "(getattr_jdf v tr = (Inr j, tr'))
     = (tr' = tr \<and> ((\<exists>s. v = PDataFrame j s) \<or> (\<exists>p. v = PProxy p \<and> j = jdf p)))"
  by (cases v) (auto simp: io_return_def io_raise_def)

lemmas returns = io_bind_returns io_return_returns io_raise_returns jvm_request_returns
  py_request_returns

lemma DataFrame_func_returns:
  "(DataFrame_func w name self a k tr = (Inr d, tr'))
     = (name \<in> set (DataFrame_attrs w)
        \<and> pyspark w tr (Py_call (''DataFrame.'' @ name) (self # a) k) = Inr d
        \<and> tr' = tr @ [Py_call (''DataFrame.'' @ name) (self # a) k])"
  by (simp add: DataFrame_func_def returns)

lemma getattr_jdf_frame:
  "isinstance_DataFrame d \<Longrightarrow> \<exists>j. getattr_jdf d = io_return j"
  by (cases d) auto

lemma wrapper_returns:
  "(wrapper w name (PProxy p) a k tr = (Inr v, tr'))
     = (\<exists>d. DataFrame_func w name (PProxy p) a k tr = (Inr d, tr')
          \<and> (if cls p \<noteq> SourcedDataFrame \<and> isinstance_DataFrame d
              then \<exists>j. getattr_jdf d tr' = (Inr j, tr')
                       \<and> v = PProxy (new (cls p) j (session p) (implicits p))
              else v = d))"
proof (cases "DataFrame_func w name (PProxy p) a k tr")
  case (Pair res tr1)
  show ?thesis
  proof (cases res)
    case (Inl e)
    with Pair show ?thesis by (simp add: wrapper_def io_bind_def)
  next
    case (Inr d)
    show ?thesis
    proof (cases "cls p \<noteq> SourcedDataFrame \<and> isinstance_DataFrame d")
      case True
      then obtain j where "getattr_jdf d = io_return j"
        using getattr_jdf_frame by blast
      with Pair Inr True show ?thesis
        by (auto simp: wrapper_def io_bind_def io_return_def)
    next
      case False
      with Pair Inr show ?thesis
        by (auto simp: wrapper_def io_bind_def io_return_def)
    qed
  qed
qed

lemma filter_returns:
  "(SourcedDataFrame_filter w (PProxy p) a k tr = (Inr v, tr'))
     = (''filter'' \<in> set (DataFrame_attrs w)
        \<and> wrapper w ''filter'' (PProxy p) a k tr = (Inr v, tr'))"
  by (simp add: SourcedDataFrame_filter_def generate_method_def DataFrame_func_def io_raise_def)

lemma ref_shape:
  assumes ok: "ReferencesDataFrame_ref w self ref tr = (Inr r, tr')"
  shows "r = new ReferencesDataFrame (jdf r) (session self) (implicits self)
         \<and> (\<exists>c k. tr' = tr @
              [Py_call ''DataFrame.__getattr__'' [PProxy self, PStr ''name''] [],
               Py_call ''Column.__eq__'' [c, ref] [],
               Py_call ''DataFrame.filter'' [PProxy self, k] []])"
proof -
  from ok obtain c k t2 v t3 j where
    t2: "t2 = (tr @ [Py_call ''DataFrame.__getattr__'' [PProxy self, PStr ''name''] []])
            @ [Py_call ''Column.__eq__'' [c, ref] []]"
    and f: "SourcedDataFrame_filter w (PProxy self) [k] [] t2 = (Inr v, t3)"
    and j: "getattr_jdf v t3 = (Inr j, tr')"
    and r: "r = new ReferencesDataFrame j (session self) (implicits self)"
    unfolding ReferencesDataFrame_ref_def returns by blast
  from j have t3: "tr' = t3" by (simp add: getattr_jdf_returns)
  from f have "t3 = t2 @ [Py_call ''DataFrame.filter'' [PProxy self, k] []]"
    by (auto simp: filter_returns wrapper_returns DataFrame_func_returns)
  with t2 t3 r show ?thesis by (auto simp: new_def)
qed

section \<open>Properties of class Engine\<close>

text \<open>
  C3. When one of \<open>repository_ids\<close>, \<open>reference_names\<close>, \<open>commit_hashes\<close> is not a list
  (a single string, say), \<open>Engine.blobs\<close> raises \<open>Exception("<parameter> must be a list")\<close>
  for the first such parameter and the trace is unchanged: no request has left the module,
  so the engine's \<open>getBlobs\<close> was not invoked.
\<close>

theorem Engine_blobs_argument_shape:
  assumes "\<not> (isinstance_list repository_ids \<and> isinstance_list reference_names
              \<and> isinstance_list commit_hashes)"
  shows "Engine_blobs w self repository_ids reference_names commit_hashes tr =
           (Inl (Exn Exception
              [offending_parameter repository_ids reference_names commit_hashes
                 @ '' must be a list'']), tr)"
  using assms by (auto simp: Engine_blobs_def offending_parameter_def io_raise_def)

theorem Engine_blobs_argument_shape_witness:
  "\<not> isinstance_list (PStr ''github.com/src-d/engine'')
   \<and> Engine_blobs engine_double engine0 (PStr ''github.com/src-d/engine'') (PList []) (PList []) [] =
       (Inl (Exn Exception [''repository_ids must be a list'']), [])"
  using Engine_blobs_argument_shape
    [of "PStr ''github.com/src-d/engine''" "PList []" "PList []" engine_double engine0 "[]"]
  by (simp add: offending_parameter_def)

text \<open>
  C10. \<open>from_metadata\<close> returns nothing but the instance it was called on, and does so
  whenever the engine's \<open>fromMetadata\<close> returns; \<open>from_repositories\<close> returns what the
  bridge answers to \<open>fromRepositories\<close> (or raises what it raises), which is a JVM value
  and never an \<open>Engine\<close> instance.
\<close>

theorem Engine_from_metadata_from_repositories:
  "(\<forall>v. fst (Engine_from_metadata w self db_path db_name tr) = Inr v \<longrightarrow> v = PEngine self)
   \<and> (\<forall>j. bridge w tr (Jvm_call (Engine_engine self) ''fromMetadata'' [db_path, db_name]) = Inr j
          \<longrightarrow> fst (Engine_from_metadata w self db_path db_name tr) = Inr (PEngine self))
   \<and> fst (Engine_from_repositories w self tr)
        = map_sum id PJava (bridge w tr (Jvm_call (Engine_engine self) ''fromRepositories'' []))
   \<and> (\<forall>e. fst (Engine_from_repositories w self tr) \<noteq> Inr (PEngine e))"
  by (auto simp: Engine_from_metadata_def Engine_from_repositories_def io_bind_def io_return_def
        jvm_request_def split: sum.splits)


theorem Engine_from_metadata_from_repositories_witness:
  "fst (Engine_from_metadata engine_double engine0 (PStr ''/db'') (PStr ''engine_metadata.db'') [])
     = Inr (PEngine engine0)
   \<and> fst (Engine_from_repositories engine_double engine0 []) = Inr (PJava 19)"
proof -
  have m: "bridge engine_double []
             (Jvm_call (Engine_engine engine0) ''fromMetadata'' [PStr ''/db'', PStr ''engine_metadata.db''])
           = Inr 15"
    by (simp add: engine_double_def engine0_def)
  have r: "bridge engine_double [] (Jvm_call (Engine_engine engine0) ''fromRepositories'' []) = Inr 19"
    by (simp add: engine_double_def engine0_def)
  note t = Engine_from_metadata_from_repositories
    [of engine_double engine0 "PStr ''/db''" "PStr ''engine_metadata.db''" "[]"]
  from t have a: "fst (Engine_from_metadata engine_double engine0 (PStr ''/db'')
                    (PStr ''engine_metadata.db'') []) = Inr (PEngine engine0)"
    using m by blast
  from t have b: "fst (Engine_from_repositories engine_double engine0 [])
        = map_sum id PJava
            (bridge engine_double [] (Jvm_call (Engine_engine engine0) ''fromRepositories'' []))"
    by blast
  show ?thesis using a b by (simp only: r map_sum.simps id_apply simp_thms)
qed

section \<open>The navigation methods: result and requests\<close>

lemma single_shape:
  assumes def: "\<And>w self. f w self =
       io_bind (engine_dataframe w self) (\<lambda>e.
       io_bind (jvm_request w (Jvm_call e name a)) (\<lambda>j.
       io_return (new dest j (session self) (implicits self))))"
    and ok: "f w self tr = (Inr r, tr')"
  shows "\<exists>e j. r = new dest j (session self) (implicits self)
           \<and> tr' = tr @ [Jvm_call (implicits self) ''EngineDataFrame'' [PJava (jdf self)],
                         Jvm_call e name a]"
  using ok unfolding def by (auto simp: returns engine_dataframe_def)

lemma double_shape:
  assumes def: "\<And>w self. f w self =
       io_bind (engine_dataframe w self) (\<lambda>e.
       io_bind (jvm_request w (Jvm_call e name1 [])) (\<lambda>r.
       io_bind (jvm_request w (Jvm_call r name2 [])) (\<lambda>j.
       io_return (new dest j (session self) (implicits self)))))"
    and ok: "f w self tr = (Inr r, tr')"
  shows "\<exists>e h j. r = new dest j (session self) (implicits self)
           \<and> tr' = tr @ [Jvm_call (implicits self) ''EngineDataFrame'' [PJava (jdf self)],
                         Jvm_call e name1 [], Jvm_call h name2 []]"
  using ok unfolding def by (auto simp: returns engine_dataframe_def)

lemma single_counts:
  assumes def: "\<And>w self. f w self =
       io_bind (engine_dataframe w self) (\<lambda>e.
       io_bind (jvm_request w (Jvm_call e name a)) (\<lambda>j.
       io_return (new dest j (session self) (implicits self))))"
    and ok: "f w self tr = (Inr r, tr')"
  shows "\<exists>j rs. r = new dest j (session self) (implicits self) \<and> tr' = tr @ rs
           \<and> length (filter derived_handle_request rs) = (if name = ''EngineDataFrame'' then 0 else 1)
           \<and> length (filter library_call rs) = 0"
proof -
  from single_shape [of f name a dest, OF def ok] obtain e j where
    "r = new dest j (session self) (implicits self)"
    "tr' = tr @ [Jvm_call (implicits self) ''EngineDataFrame'' [PJava (jdf self)], Jvm_call e name a]"
    by blast
  then show ?thesis
    by (intro exI [of _ j] exI [of _ "[Jvm_call (implicits self) ''EngineDataFrame'' [PJava (jdf self)], Jvm_call e name a]"])
       (simp add: derived_handle_request_def library_call_def)
qed

lemma double_counts:
  assumes def: "\<And>w self. f w self =
       io_bind (engine_dataframe w self) (\<lambda>e.
       io_bind (jvm_request w (Jvm_call e name1 [])) (\<lambda>r.
       io_bind (jvm_request w (Jvm_call r name2 [])) (\<lambda>j.
       io_return (new dest j (session self) (implicits self)))))"
    and ok: "f w self tr = (Inr r, tr')"
  shows "\<exists>j rs. r = new dest j (session self) (implicits self) \<and> tr' = tr @ rs
           \<and> length (filter derived_handle_request rs)
               = (if name1 = ''EngineDataFrame'' then 0 else 1) + (if name2 = ''EngineDataFrame'' then 0 else 1)
           \<and> length (filter library_call rs) = 0"
proof -
  from double_shape [of f name1 name2 dest, OF def ok] obtain e h j where
    "r = new dest j (session self) (implicits self)"
    "tr' = tr @ [Jvm_call (implicits self) ''EngineDataFrame'' [PJava (jdf self)],
                 Jvm_call e name1 [], Jvm_call h name2 []]"
    by blast
  then show ?thesis
    by (intro exI [of _ j] exI [of _ "[Jvm_call (implicits self) ''EngineDataFrame'' [PJava (jdf self)],
                 Jvm_call e name1 [], Jvm_call h name2 []]"])
       (simp add: derived_handle_request_def library_call_def)
qed

lemma ref_counts:
  assumes ok: "ReferencesDataFrame_ref w self ref tr = (Inr r, tr')"
  shows "\<exists>j rs. r = new ReferencesDataFrame j (session self) (implicits self) \<and> tr' = tr @ rs
           \<and> length (filter derived_handle_request rs) = 0
           \<and> length (filter library_call rs) = 3"
proof -
  from ref_shape [OF ok] obtain c k where
    r: "r = new ReferencesDataFrame (jdf r) (session self) (implicits self)"
    and "tr' = tr @
              [Py_call ''DataFrame.__getattr__'' [PProxy self, PStr ''name''] [],
               Py_call ''Column.__eq__'' [c, ref] [],
               Py_call ''DataFrame.filter'' [PProxy self, k] []]"
    by blast
  then show ?thesis
    by (intro exI [of _ "jdf r"] exI [of _ "[Py_call ''DataFrame.__getattr__'' [PProxy self, PStr ''name''] [],
               Py_call ''Column.__eq__'' [c, ref] [],
               Py_call ''DataFrame.filter'' [PProxy self, k] []]"])
       (simp add: derived_handle_request_def library_call_def)
qed

lemmas nav_counts =
  single_counts [OF RepositoriesDataFrame_references_def]
  single_counts [OF RepositoriesDataFrame_remote_references_def]
  double_counts [OF RepositoriesDataFrame_head_ref_def]
  double_counts [OF RepositoriesDataFrame_master_ref_def]
  single_counts [OF ReferencesDataFrame_remote_references_def]
  single_counts [OF ReferencesDataFrame_head_ref_def]
  single_counts [OF ReferencesDataFrame_master_ref_def]
  single_counts [OF ReferencesDataFrame_all_reference_commits_def]
  single_counts [OF ReferencesDataFrame_commits_def]
  single_counts [OF ReferencesDataFrame_blobs_def]
  single_counts [OF CommitsDataFrame_all_reference_commits_def]
  single_counts [OF CommitsDataFrame_tree_entries_def]
  single_counts [OF CommitsDataFrame_blobs_def]
  single_counts [OF TreeEntriesDataFrame_blobs_def]
  single_counts [OF BlobsDataFrame_classify_languages_def]
  single_counts [OF BlobsDataFrame_extract_uasts_def]
  single_counts [OF BlobsWithLanguageDataFrame_extract_uasts_def]
  single_counts [OF UASTsDataFrame_query_uast_def]
  single_counts [OF UASTsDataFrame_extract_tokens_def]
  ref_counts

lemma nav_returns:
  assumes m: "resolve c n = Some f" and ok: "f w self tr = (Inr r, tr')"
  shows "\<exists>j rs. r = new (rtype n) j (session self) (implicits self) \<and> tr' = tr @ rs
           \<and> length (filter derived_handle_request rs) = engine_requests c n
           \<and> length (filter library_call rs) = library_calls n"
  using assms
  by (cases c; cases n;
      auto simp: resolve_def engine_requests_def library_calls_def dest!: nav_counts)

text \<open>With a foreign side that answers, every navigation method returns.\<close>

lemma single_answers:
  assumes def: "\<And>w self. f w self =
       io_bind (engine_dataframe w self) (\<lambda>e.
       io_bind (jvm_request w (Jvm_call e name a)) (\<lambda>j.
       io_return (new dest j (session self) (implicits self))))"
    and "answers w"
  shows "\<exists>r tr'. f w self tr = (Inr r, tr')"
proof -
  from \<open>answers w\<close> have b: "\<And>tr rq. \<exists>j. bridge w tr rq = Inr j"
    by (simp add: answers_def)
  let ?r1 = "Jvm_call (implicits self) ''EngineDataFrame'' [PJava (jdf self)]"
  from b [of tr ?r1] obtain e where e: "bridge w tr ?r1 = Inr e" ..
  from b [of "tr @ [?r1]" "Jvm_call e name a"] obtain j
    where j: "bridge w (tr @ [?r1]) (Jvm_call e name a) = Inr j" ..
  have "f w self tr = (Inr (new dest j (session self) (implicits self)), (tr @ [?r1]) @ [Jvm_call e name a])"
    unfolding def using e j by (simp add: returns engine_dataframe_def)
  then show ?thesis by (intro exI)
qed

lemma double_answers:
  assumes def: "\<And>w self. f w self =
       io_bind (engine_dataframe w self) (\<lambda>e.
       io_bind (jvm_request w (Jvm_call e name1 [])) (\<lambda>r.
       io_bind (jvm_request w (Jvm_call r name2 [])) (\<lambda>j.
       io_return (new dest j (session self) (implicits self)))))"
    and "answers w"
  shows "\<exists>r tr'. f w self tr = (Inr r, tr')"
proof -
  from \<open>answers w\<close> have b: "\<And>tr rq. \<exists>j. bridge w tr rq = Inr j"
    by (simp add: answers_def)
  let ?r1 = "Jvm_call (implicits self) ''EngineDataFrame'' [PJava (jdf self)]"
  from b [of tr ?r1] obtain e where e: "bridge w tr ?r1 = Inr e" ..
  from b [of "tr @ [?r1]" "Jvm_call e name1 []"] obtain h
    where h: "bridge w (tr @ [?r1]) (Jvm_call e name1 []) = Inr h" ..
  from b [of "(tr @ [?r1]) @ [Jvm_call e name1 []]" "Jvm_call h name2 []"] obtain j
    where j: "bridge w ((tr @ [?r1]) @ [Jvm_call e name1 []]) (Jvm_call h name2 []) = Inr j" ..
  have "f w self tr = (Inr (new dest j (session self) (implicits self)),
          ((tr @ [?r1]) @ [Jvm_call e name1 []]) @ [Jvm_call h name2 []])"
    unfolding def using e h j by (simp add: returns engine_dataframe_def)
  then show ?thesis by (intro exI)
qed

lemma ref_answers:
  assumes "answers w"
  shows "\<exists>r tr'. ReferencesDataFrame_ref w self ref tr = (Inr r, tr')"
proof -
  from assms have p: "\<And>tr rq. \<exists>v. pyspark w tr rq = Inr v"
    and f: "\<And>tr a k. \<exists>j s. pyspark w tr (Py_call ''DataFrame.filter'' a k) = Inr (PDataFrame j s)"
    and m: "''filter'' \<in> set (DataFrame_attrs w)"
    by (simp_all add: answers_def)
  let ?r1 = "Py_call ''DataFrame.__getattr__'' [PProxy self, PStr ''name''] []"
  from p [of tr ?r1] obtain c where c: "pyspark w tr ?r1 = Inr c" ..
  let ?r2 = "Py_call ''Column.__eq__'' [c, ref] []"
  from p [of "tr @ [?r1]" ?r2] obtain k where k: "pyspark w (tr @ [?r1]) ?r2 = Inr k" ..
  let ?t2 = "(tr @ [?r1]) @ [?r2]"
  let ?r3 = "Py_call ''DataFrame.filter'' [PProxy self, k] []"
  from f [of ?t2 "[PProxy self, k]" "[]"] obtain j s
    where d: "pyspark w ?t2 ?r3 = Inr (PDataFrame j s)" by (elim exE)
  have df: "DataFrame_func w ''filter'' (PProxy self) [k] [] ?t2 = (Inr (PDataFrame j s), ?t2 @ [?r3])"
    using d m by (simp add: DataFrame_func_returns)
  define v where "v = (if cls self \<noteq> SourcedDataFrame
                       then PProxy (new (cls self) j (session self) (implicits self))
                       else PDataFrame j s)"
  have w: "wrapper w ''filter'' (PProxy self) [k] [] ?t2 = (Inr v, ?t2 @ [?r3])"
    unfolding wrapper_returns v_def using df
    by (simp add: io_return_def)
  have fl: "SourcedDataFrame_filter w (PProxy self) [k] [] ?t2 = (Inr v, ?t2 @ [?r3])"
    using w m by (simp add: filter_returns)
  have gj: "getattr_jdf v (?t2 @ [?r3]) = (Inr j, ?t2 @ [?r3])"
    by (simp add: v_def getattr_jdf_returns new_def)
  have "ReferencesDataFrame_ref w self ref tr
          = (Inr (new ReferencesDataFrame j (session self) (implicits self)), ?t2 @ [?r3])"
    unfolding ReferencesDataFrame_ref_def io_bind_returns
    apply (rule exI [of _ c], rule exI [of _ "tr @ [?r1]"], rule conjI)
     apply (simp add: py_request_returns c)
    apply (rule exI [of _ k], rule exI [of _ ?t2], rule conjI)
     apply (simp add: py_request_returns k)
    apply (rule exI [of _ v], rule exI [of _ "?t2 @ [?r3]"], rule conjI)
     apply (rule fl)
    apply (rule exI [of _ j], rule exI [of _ "?t2 @ [?r3]"], rule conjI)
     apply (rule gj)
    apply (simp add: io_return_def)
    done
  then show ?thesis by (intro exI)
qed

lemma answers_double: "answers engine_double"
proof -
  have 1: "\<And>tr rq. \<exists>j. bridge engine_double tr rq = Inr j"
    by (simp add: engine_double_def split: request.split list.split pyval.split)
  have 2: "\<And>tr rq. \<exists>v. pyspark engine_double tr rq = Inr v"
    by (simp add: engine_double_def split: request.split list.split pyval.split)
  have 3: "\<And>tr a k. \<exists>j s. pyspark engine_double tr (Py_call ''DataFrame.filter'' a k)
                             = Inr (PDataFrame j s)"
    by (simp add: engine_double_def split: list.split pyval.split)
  have 4: "''filter'' \<in> set (DataFrame_attrs engine_double)"
    by (simp add: engine_double_def SourcedDataFrame_methods_def)
  from 1 2 3 4 show ?thesis
    unfolding answers_def by (intro conjI allI)
qed

lemmas nav_answers =
  single_answers [OF RepositoriesDataFrame_references_def]
  single_answers [OF RepositoriesDataFrame_remote_references_def]
  double_answers [OF RepositoriesDataFrame_head_ref_def]
  double_answers [OF RepositoriesDataFrame_master_ref_def]
  single_answers [OF ReferencesDataFrame_remote_references_def]
  single_answers [OF ReferencesDataFrame_head_ref_def]
  single_answers [OF ReferencesDataFrame_master_ref_def]
  single_answers [OF ReferencesDataFrame_all_reference_commits_def]
  single_answers [OF ReferencesDataFrame_commits_def]
  single_answers [OF ReferencesDataFrame_blobs_def]
  single_answers [OF CommitsDataFrame_all_reference_commits_def]
  single_answers [OF CommitsDataFrame_tree_entries_def]
  single_answers [OF CommitsDataFrame_blobs_def]
  single_answers [OF TreeEntriesDataFrame_blobs_def]
  single_answers [OF BlobsDataFrame_classify_languages_def]
  single_answers [OF BlobsDataFrame_extract_uasts_def]
  single_answers [OF BlobsWithLanguageDataFrame_extract_uasts_def]
  single_answers [OF UASTsDataFrame_query_uast_def]
  single_answers [OF UASTsDataFrame_extract_tokens_def]
  ref_answers

lemma nav_answers_all:
  assumes m: "resolve c n = Some f" and "answers w"
  shows "\<exists>r tr'. f w self tr = (Inr r, tr')"
  using assms
  apply (cases c; cases n; clarsimp simp: resolve_def)
  apply (rule nav_answers, assumption)+
  done

section \<open>Properties of the navigation methods\<close>

text \<open>
  C2. For every navigation attribute \<open>n\<close> that the class of \<open>self\<close> defines: whenever
  the method returns, the class of the result is the class that the docstring of \<open>n\<close> declares
  (\<open>rtype n\<close>), whatever the instance \<open>self\<close>; and it does return when the foreign side
  answers.
\<close>

theorem navigation_result_class:
  assumes "resolve (cls self) n = Some f"
  shows "(\<forall>r tr'. f w self tr = (Inr r, tr') \<longrightarrow> cls r = rtype n)
         \<and> (answers w \<longrightarrow> (\<exists>r tr'. f w self tr = (Inr r, tr') \<and> cls r = rtype n))"
proof (intro conjI allI impI)
  fix r tr' assume "f w self tr = (Inr r, tr')"
  from nav_returns [OF assms this] show "cls r = rtype n"
    by (auto simp: new_def)
next
  assume "answers w"
  from nav_answers_all [OF assms this, of self tr] obtain r tr'
    where ok: "f w self tr = (Inr r, tr')" by (elim exE)
  from nav_returns [OF assms ok] have "cls r = rtype n"
    by (auto simp: new_def)
  with ok show "\<exists>r tr'. f w self tr = (Inr r, tr') \<and> cls r = rtype n"
    by (intro exI conjI)
qed

theorem navigation_result_class_witness:
  "resolve (cls refs0) Commits = Some ReferencesDataFrame_commits
   \<and> ReferencesDataFrame_commits engine_double refs0 [] =
     (Inr (new CommitsDataFrame 30 session0 4),
      [Jvm_call 4 ''EngineDataFrame'' [PJava 20], Jvm_call 20 ''getCommits'' []])
   \<and> cls (new CommitsDataFrame 30 session0 4) = rtype Commits"
proof -
  have m: "resolve (cls refs0) Commits = Some ReferencesDataFrame_commits"
    by (simp add: resolve_def refs0_def new_def)
  have c: "ReferencesDataFrame_commits engine_double refs0 [] =
     (Inr (new CommitsDataFrame 30 session0 4),
      [Jvm_call 4 ''EngineDataFrame'' [PJava 20], Jvm_call 20 ''getCommits'' []])"
    by (simp add: ReferencesDataFrame_commits_def engine_dataframe_def refs0_def new_def
      io_bind_def io_return_def jvm_request_def engine_double_def)
  from navigation_result_class [OF m, of engine_double "[]"] c
  have "cls (new CommitsDataFrame 30 session0 4) = rtype Commits" by blast
  with m c show ?thesis by (intro conjI)
qed

text \<open>
  C4, as the code has it. A navigation method that returns has made exactly one
  derived-handle request and no PySpark call, with three exceptions: \<open>head_ref\<close> and
  \<open>master_ref\<close> of \<open>RepositoriesDataFrame\<close> make two requests (\<open>getReferences\<close>, then
  \<open>getHEAD\<close> on its result), and \<open>ref\<close> makes no request to the engine but three PySpark
  calls (the column lookup, the comparison and the generic \<open>filter\<close>).
\<close>

theorem navigation_requests:
  assumes "resolve (cls self) n = Some f" and "f w self tr = (Inr r, tr')"
  shows "length (filter derived_handle_request (requests_of (f w self) tr))
           = engine_requests (cls self) n
         \<and> length (filter library_call (requests_of (f w self) tr)) = library_calls n"
proof -
  from nav_returns [OF assms] obtain rs where "tr' = tr @ rs"
    and "length (filter derived_handle_request rs) = engine_requests (cls self) n"
    and "length (filter library_call rs) = library_calls n"
    by blast
  with assms(2) show ?thesis by (simp add: requests_of_def)
qed

theorem navigation_requests_witness:
  "resolve (cls refs0) (Ref (PStr ''refs/heads/master'')) =
      Some (\<lambda>w self. ReferencesDataFrame_ref w self (PStr ''refs/heads/master''))
   \<and> ReferencesDataFrame_ref engine_double refs0 (PStr ''refs/heads/master'') [] =
      (Inr (new ReferencesDataFrame 1020 session0 4),
       [Py_call ''DataFrame.__getattr__'' [PProxy refs0, PStr ''name''] [],
        Py_call ''Column.__eq__'' [PColumn 0, PStr ''refs/heads/master''] [],
        Py_call ''DataFrame.filter'' [PProxy refs0, PColumn 0] []])
   \<and> length (filter derived_handle_request
        (requests_of (ReferencesDataFrame_ref engine_double refs0 (PStr ''refs/heads/master'')) [])) = 0
   \<and> length (filter library_call
        (requests_of (ReferencesDataFrame_ref engine_double refs0 (PStr ''refs/heads/master'')) [])) = 3"
proof -
  have m: "resolve (cls refs0) (Ref (PStr ''refs/heads/master'')) =
      Some (\<lambda>w self. ReferencesDataFrame_ref w self (PStr ''refs/heads/master''))"
    by (simp add: resolve_def refs0_def new_def)
  have c: "ReferencesDataFrame_ref engine_double refs0 (PStr ''refs/heads/master'') [] =
      (Inr (new ReferencesDataFrame 1020 session0 4),
       [Py_call ''DataFrame.__getattr__'' [PProxy refs0, PStr ''name''] [],
        Py_call ''Column.__eq__'' [PColumn 0, PStr ''refs/heads/master''] [],
        Py_call ''DataFrame.filter'' [PProxy refs0, PColumn 0] []])"
    by (simp add: ReferencesDataFrame_ref_def SourcedDataFrame_filter_def generate_method_def
        wrapper_def DataFrame_func_def io_bind_def io_return_def py_request_def
        engine_double_def refs0_def new_def SourcedDataFrame_methods_def)
  from navigation_requests [OF m, of engine_double "[]", OF c] m c
  show ?thesis by (simp add: engine_requests_def library_calls_def)
qed

text \<open>
  C4 as stated ("exactly one derived-handle request, in particular for the repository-level
  \<open>head_ref\<close>") fails: on the double, \<open>head_ref\<close> of a \<open>RepositoriesDataFrame\<close> makes two.
\<close>

theorem repository_head_ref_two_requests:
  "resolve RepositoriesDataFrame Head_ref = Some RepositoriesDataFrame_head_ref
   \<and> RepositoriesDataFrame_head_ref engine_double repos0 [] =
      (Inr (new ReferencesDataFrame 1023 session0 4),
       [Jvm_call 4 ''EngineDataFrame'' [PJava 10],
        Jvm_call 10 ''getReferences'' [],
        Jvm_call 23 ''getHEAD'' []])
   \<and> length (filter derived_handle_request
        (requests_of (RepositoriesDataFrame_head_ref engine_double repos0) [])) = 2"
proof -
  have c: "RepositoriesDataFrame_head_ref engine_double repos0 [] =
      (Inr (new ReferencesDataFrame 1023 session0 4),
       [Jvm_call 4 ''EngineDataFrame'' [PJava 10],
        Jvm_call 10 ''getReferences'' [],
        Jvm_call 23 ''getHEAD'' []])"
    by (simp add: RepositoriesDataFrame_head_ref_def engine_dataframe_def repos0_def new_def
      io_bind_def io_return_def jvm_request_def engine_double_def)
  then show ?thesis
    by (simp add: resolve_def requests_of_def derived_handle_request_def)
qed

text \<open>
  C5. \<open>master_ref\<close> and \<open>head_ref\<close> of \<open>RepositoriesDataFrame\<close> are the same function:
  both return exactly when \<open>EngineDataFrame\<close>, \<open>getReferences\<close> and then \<open>getHEAD\<close> on the
  references handle return, wrapping the answer of \<open>getHEAD\<close>. \<open>master_ref\<close> of
  \<open>ReferencesDataFrame\<close> returns exactly when \<open>EngineDataFrame\<close> and the engine's
  \<open>getMaster\<close> return, wrapping the answer of \<open>getMaster\<close>.
\<close>

theorem master_ref_levels:
  "RepositoriesDataFrame_master_ref = RepositoriesDataFrame_head_ref
   \<and> ((RepositoriesDataFrame_master_ref w self tr = (Inr r, tr'))
        = (\<exists>e h j.
             bridge w tr (Jvm_call (implicits self) ''EngineDataFrame'' [PJava (jdf self)]) = Inr e
           \<and> bridge w (tr @ [Jvm_call (implicits self) ''EngineDataFrame'' [PJava (jdf self)]])
                (Jvm_call e ''getReferences'' []) = Inr h
           \<and> bridge w (tr @ [Jvm_call (implicits self) ''EngineDataFrame'' [PJava (jdf self)],
                              Jvm_call e ''getReferences'' []])
                (Jvm_call h ''getHEAD'' []) = Inr j
           \<and> r = new ReferencesDataFrame j (session self) (implicits self)
           \<and> tr' = tr @ [Jvm_call (implicits self) ''EngineDataFrame'' [PJava (jdf self)],
                          Jvm_call e ''getReferences'' [], Jvm_call h ''getHEAD'' []]))
   \<and> ((ReferencesDataFrame_master_ref w self tr = (Inr r, tr'))
        = (\<exists>e j.
             bridge w tr (Jvm_call (implicits self) ''EngineDataFrame'' [PJava (jdf self)]) = Inr e
           \<and> bridge w (tr @ [Jvm_call (implicits self) ''EngineDataFrame'' [PJava (jdf self)]])
                (Jvm_call e ''getMaster'' []) = Inr j
           \<and> r = new ReferencesDataFrame j (session self) (implicits self)
           \<and> tr' = tr @ [Jvm_call (implicits self) ''EngineDataFrame'' [PJava (jdf self)],
                          Jvm_call e ''getMaster'' []]))"
proof (intro conjI)
  show "RepositoriesDataFrame_master_ref = RepositoriesDataFrame_head_ref"
    by (intro ext)
       (simp add: RepositoriesDataFrame_master_ref_def RepositoriesDataFrame_head_ref_def)
next
  show "(RepositoriesDataFrame_master_ref w self tr = (Inr r, tr'))
        = (\<exists>e h j.
             bridge w tr (Jvm_call (implicits self) ''EngineDataFrame'' [PJava (jdf self)]) = Inr e
           \<and> bridge w (tr @ [Jvm_call (implicits self) ''EngineDataFrame'' [PJava (jdf self)]])
                (Jvm_call e ''getReferences'' []) = Inr h
           \<and> bridge w (tr @ [Jvm_call (implicits self) ''EngineDataFrame'' [PJava (jdf self)],
                              Jvm_call e ''getReferences'' []])
                (Jvm_call h ''getHEAD'' []) = Inr j
           \<and> r = new ReferencesDataFrame j (session self) (implicits self)
           \<and> tr' = tr @ [Jvm_call (implicits self) ''EngineDataFrame'' [PJava (jdf self)],
                          Jvm_call e ''getReferences'' [], Jvm_call h ''getHEAD'' []])"
    by (auto simp: RepositoriesDataFrame_master_ref_def returns engine_dataframe_def)
next
  show "(ReferencesDataFrame_master_ref w self tr = (Inr r, tr'))
        = (\<exists>e j.
             bridge w tr (Jvm_call (implicits self) ''EngineDataFrame'' [PJava (jdf self)]) = Inr e
           \<and> bridge w (tr @ [Jvm_call (implicits self) ''EngineDataFrame'' [PJava (jdf self)]])
                (Jvm_call e ''getMaster'' []) = Inr j
           \<and> r = new ReferencesDataFrame j (session self) (implicits self)
           \<and> tr' = tr @ [Jvm_call (implicits self) ''EngineDataFrame'' [PJava (jdf self)],
                          Jvm_call e ''getMaster'' []])"
    by (auto simp: ReferencesDataFrame_master_ref_def returns engine_dataframe_def)
qed

theorem master_ref_levels_witness:
  "RepositoriesDataFrame_master_ref engine_double repos0 [] =
      (Inr (new ReferencesDataFrame 1023 session0 4),
       [Jvm_call 4 ''EngineDataFrame'' [PJava 10],
        Jvm_call 10 ''getReferences'' [],
        Jvm_call 23 ''getHEAD'' []])
   \<and> ReferencesDataFrame_master_ref engine_double refs0 [] =
      (Inr (new ReferencesDataFrame 29 session0 4),
       [Jvm_call 4 ''EngineDataFrame'' [PJava 20],
        Jvm_call 20 ''getMaster'' []])"
proof -
  have 1: "bridge engine_double [] (Jvm_call 4 ''EngineDataFrame'' [PJava 10]) = Inr 10"
    and 2: "bridge engine_double [Jvm_call 4 ''EngineDataFrame'' [PJava 10]]
              (Jvm_call 10 ''getReferences'' []) = Inr 23"
    and 3: "bridge engine_double [Jvm_call 4 ''EngineDataFrame'' [PJava 10],
              Jvm_call 10 ''getReferences'' []] (Jvm_call 23 ''getHEAD'' []) = Inr 1023"
    and 4: "bridge engine_double [] (Jvm_call 4 ''EngineDataFrame'' [PJava 20]) = Inr 20"
    and 5: "bridge engine_double [Jvm_call 4 ''EngineDataFrame'' [PJava 20]]
              (Jvm_call 20 ''getMaster'' []) = Inr 29"
    by (simp_all add: engine_double_def)
  have p: "implicits repos0 = 4" "jdf repos0 = 10" "session repos0 = session0"
      "implicits refs0 = 4" "jdf refs0 = 20" "session refs0 = session0"
    by (simp_all add: repos0_def refs0_def new_def)
  note t = master_ref_levels [of engine_double repos0 "[]" "new ReferencesDataFrame 1023 session0 4"
       "[Jvm_call 4 ''EngineDataFrame'' [PJava 10], Jvm_call 10 ''getReferences'' [],
         Jvm_call 23 ''getHEAD'' []]"]
  note u = master_ref_levels [of engine_double refs0 "[]" "new ReferencesDataFrame 29 session0 4"
       "[Jvm_call 4 ''EngineDataFrame'' [PJava 20], Jvm_call 20 ''getMaster'' []]"]
  have a: "RepositoriesDataFrame_master_ref engine_double repos0 [] =
      (Inr (new ReferencesDataFrame 1023 session0 4),
       [Jvm_call 4 ''EngineDataFrame'' [PJava 10],
        Jvm_call 10 ''getReferences'' [],
        Jvm_call 23 ''getHEAD'' []])"
    using t [THEN conjunct2, THEN conjunct1] 1 2 3 by (simp add: p)
  have b: "ReferencesDataFrame_master_ref engine_double refs0 [] =
      (Inr (new ReferencesDataFrame 29 session0 4),
       [Jvm_call 4 ''EngineDataFrame'' [PJava 20],
        Jvm_call 20 ''getMaster'' []])"
    using u [THEN conjunct2, THEN conjunct2] 4 5 by (simp add: p)
  from a b show ?thesis by (intro conjI)
qed

section \<open>Properties of the generic operations\<close>


lemma getattr_returns:
  assumes "map_of SourcedDataFrame_methods attr = Some name"
  shows "(SourcedDataFrame_getattr w attr (PProxy p) a k tr = (Inr v, tr'))
           = (wrapper w name (PProxy p) a k tr = (Inr v, tr'))"
  using assms
  by (auto simp: SourcedDataFrame_getattr_def generate_method_def wrapper_returns
        DataFrame_func_returns)




text \<open>
  C8. A navigation method that returns, returns a proxy with the session and the implicits
  of \<open>self\<close>; a generic operation that returns, returns either what the underlying
  \<open>DataFrame\<close> method returned, untouched, or a proxy of the class of \<open>self\<close> with the
  session and the implicits of \<open>self\<close>. (Sessions and implicits are values of the model:
  no operation can write to them.)
\<close>

theorem session_and_implicits_preserved:
  "(\<forall>n f r tr'. resolve (cls self) n = Some f \<longrightarrow> f w self tr = (Inr r, tr')
       \<longrightarrow> session r = session self \<and> implicits r = implicits self)
   \<and> (\<forall>attr name v tr'. map_of SourcedDataFrame_methods attr = Some name
       \<longrightarrow> SourcedDataFrame_getattr w attr (PProxy self) a k tr = (Inr v, tr')
       \<longrightarrow> DataFrame_func w name (PProxy self) a k tr = (Inr v, tr')
           \<or> (\<exists>j. v = PProxy (new (cls self) j (session self) (implicits self))))"
proof (intro conjI allI impI)
  fix n f r tr'
  assume m: "resolve (cls self) n = Some f" and ok: "f w self tr = (Inr r, tr')"
  from nav_returns [OF m ok] obtain j where "r = new (rtype n) j (session self) (implicits self)"
    by (elim exE conjE)
  then show "session r = session self" and "implicits r = implicits self"
    by (simp_all add: new_def)
next
  fix attr name v tr'
  assume m: "map_of SourcedDataFrame_methods attr = Some name"
    and ok: "SourcedDataFrame_getattr w attr (PProxy self) a k tr = (Inr v, tr')"
  from ok have "wrapper w name (PProxy self) a k tr = (Inr v, tr')"
    by (simp add: getattr_returns [OF m])
  then obtain d where d: "DataFrame_func w name (PProxy self) a k tr = (Inr d, tr')"
    and v: "if cls self \<noteq> SourcedDataFrame \<and> isinstance_DataFrame d
            then \<exists>j. getattr_jdf d tr' = (Inr j, tr')
                     \<and> v = PProxy (new (cls self) j (session self) (implicits self))
            else v = d"
    unfolding wrapper_returns by (elim exE conjE)
  show "DataFrame_func w name (PProxy self) a k tr = (Inr v, tr')
           \<or> (\<exists>j. v = PProxy (new (cls self) j (session self) (implicits self)))"
  proof (cases "cls self \<noteq> SourcedDataFrame \<and> isinstance_DataFrame d")
    case True
    with v show ?thesis by auto
  next
    case False
    with v d show ?thesis by auto
  qed
qed

theorem session_and_implicits_preserved_witness:
  "resolve (cls refs0) Commits = Some ReferencesDataFrame_commits
   \<and> ReferencesDataFrame_commits engine_double refs0 [] =
       (Inr (new CommitsDataFrame 30 session0 4),
        [Jvm_call 4 ''EngineDataFrame'' [PJava 20], Jvm_call 20 ''getCommits'' []])
   \<and> session (new CommitsDataFrame 30 session0 4) = session refs0
   \<and> implicits (new CommitsDataFrame 30 session0 4) = implicits refs0"
proof -
  have m: "resolve (cls refs0) Commits = Some ReferencesDataFrame_commits"
    by (simp add: resolve_def refs0_def new_def)
  have c: "ReferencesDataFrame_commits engine_double refs0 [] =
     (Inr (new CommitsDataFrame 30 session0 4),
      [Jvm_call 4 ''EngineDataFrame'' [PJava 20], Jvm_call 20 ''getCommits'' []])"
    by (simp add: ReferencesDataFrame_commits_def engine_dataframe_def refs0_def new_def
      io_bind_def io_return_def jvm_request_def engine_double_def)
  from session_and_implicits_preserved [of refs0 engine_double "[]", THEN conjunct1] m c
  have "session (new CommitsDataFrame 30 session0 4) = session refs0
        \<and> implicits (new CommitsDataFrame 30 session0 4) = implicits refs0"
    by blast
  with m c show ?thesis by (intro conjI) simp_all
qed

section \<open>Chains of navigation methods\<close>

text \<open>
  C9. On a blobs proxy, \<open>classify_languages()\<close> followed by \<open>extract_uasts()\<close> (which
  resolves to the method of \<open>BlobsWithLanguageDataFrame\<close>, the class of the intermediate
  result) and \<open>extract_uasts()\<close> called directly both return instances of
  \<open>UASTsDataFrame\<close> whenever they return, and both return when the foreign side answers.
\<close>

theorem classify_then_extract_uasts:
  "(\<forall>r tr'. io_bind (BlobsDataFrame_classify_languages w self)
                (BlobsWithLanguageDataFrame_extract_uasts w) tr = (Inr r, tr')
       \<longrightarrow> cls r = UASTsDataFrame)
   \<and> (\<forall>r tr'. BlobsDataFrame_extract_uasts w self tr = (Inr r, tr') \<longrightarrow> cls r = UASTsDataFrame)
   \<and> (\<forall>b tr1. BlobsDataFrame_classify_languages w self tr = (Inr b, tr1)
       \<longrightarrow> resolve (cls b) Extract_uasts = Some BlobsWithLanguageDataFrame_extract_uasts)
   \<and> (answers w \<longrightarrow>
        (\<exists>r tr'. io_bind (BlobsDataFrame_classify_languages w self)
                   (BlobsWithLanguageDataFrame_extract_uasts w) tr = (Inr r, tr'))
        \<and> (\<exists>r tr'. BlobsDataFrame_extract_uasts w self tr = (Inr r, tr')))"
proof (intro conjI allI impI)
  fix r tr'
  assume "io_bind (BlobsDataFrame_classify_languages w self)
            (BlobsWithLanguageDataFrame_extract_uasts w) tr = (Inr r, tr')"
  then obtain b tr1 where "BlobsWithLanguageDataFrame_extract_uasts w b tr1 = (Inr r, tr')"
    unfolding io_bind_returns by (elim exE conjE)
  from single_shape [OF BlobsWithLanguageDataFrame_extract_uasts_def this]
  show "cls r = UASTsDataFrame" by (auto simp: new_def)
next
  fix r tr'
  assume "BlobsDataFrame_extract_uasts w self tr = (Inr r, tr')"
  from single_shape [OF BlobsDataFrame_extract_uasts_def this]
  show "cls r = UASTsDataFrame" by (auto simp: new_def)
next
  fix b tr1
  assume "BlobsDataFrame_classify_languages w self tr = (Inr b, tr1)"
  from single_shape [OF BlobsDataFrame_classify_languages_def this]
  have "cls b = BlobsWithLanguageDataFrame" by (auto simp: new_def)
  then show "resolve (cls b) Extract_uasts = Some BlobsWithLanguageDataFrame_extract_uasts"
    by (simp add: resolve_def)
next
  assume a: "answers w"
  from single_answers [OF BlobsDataFrame_classify_languages_def a, of self tr]
  obtain b tr1 where b: "BlobsDataFrame_classify_languages w self tr = (Inr b, tr1)"
    by (elim exE)
  from single_answers [OF BlobsWithLanguageDataFrame_extract_uasts_def a, of b tr1]
  obtain r tr' where "BlobsWithLanguageDataFrame_extract_uasts w b tr1 = (Inr r, tr')"
    by (elim exE)
  with b have "io_bind (BlobsDataFrame_classify_languages w self)
                 (BlobsWithLanguageDataFrame_extract_uasts w) tr = (Inr r, tr')"
    unfolding io_bind_returns by (intro exI conjI)
  then show "\<exists>r tr'. io_bind (BlobsDataFrame_classify_languages w self)
                   (BlobsWithLanguageDataFrame_extract_uasts w) tr = (Inr r, tr')"
    by (intro exI)
next
  assume a: "answers w"
  from single_answers [OF BlobsDataFrame_extract_uasts_def a, of self tr]
  show "\<exists>r tr'. BlobsDataFrame_extract_uasts w self tr = (Inr r, tr')" .
qed

theorem classify_then_extract_uasts_witness:
  "io_bind (BlobsDataFrame_classify_languages engine_double blobs0)
       (BlobsWithLanguageDataFrame_extract_uasts engine_double) []
     = (Inr (new UASTsDataFrame 59 session0 4),
        [Jvm_call 4 ''EngineDataFrame'' [PJava 30], Jvm_call 30 ''classifyLanguages'' [],
         Jvm_call 4 ''EngineDataFrame'' [PJava 47], Jvm_call 47 ''extractUASTs'' []])
   \<and> BlobsDataFrame_extract_uasts engine_double blobs0 []
     = (Inr (new UASTsDataFrame 42 session0 4),
        [Jvm_call 4 ''EngineDataFrame'' [PJava 30], Jvm_call 30 ''extractUASTs'' []])
   \<and> cls (new UASTsDataFrame 59 session0 4) = UASTsDataFrame
   \<and> cls (new UASTsDataFrame 42 session0 4) = UASTsDataFrame"
proof -
  have c: "io_bind (BlobsDataFrame_classify_languages engine_double blobs0)
       (BlobsWithLanguageDataFrame_extract_uasts engine_double) []
     = (Inr (new UASTsDataFrame 59 session0 4),
        [Jvm_call 4 ''EngineDataFrame'' [PJava 30], Jvm_call 30 ''classifyLanguages'' [],
         Jvm_call 4 ''EngineDataFrame'' [PJava 47], Jvm_call 47 ''extractUASTs'' []])"
    by (simp add: BlobsDataFrame_classify_languages_def BlobsWithLanguageDataFrame_extract_uasts_def
        engine_dataframe_def blobs0_def new_def io_bind_def io_return_def jvm_request_def
        engine_double_def)
  have d: "BlobsDataFrame_extract_uasts engine_double blobs0 []
     = (Inr (new UASTsDataFrame 42 session0 4),
        [Jvm_call 4 ''EngineDataFrame'' [PJava 30], Jvm_call 30 ''extractUASTs'' []])"
    by (simp add: BlobsDataFrame_extract_uasts_def
        engine_dataframe_def blobs0_def new_def io_bind_def io_return_def jvm_request_def
        engine_double_def)
  note t = classify_then_extract_uasts [of engine_double blobs0 "[]"]
  from t c have 1: "cls (new UASTsDataFrame 59 session0 4) = UASTsDataFrame" by blast
  from t d have 2: "cls (new UASTsDataFrame 42 session0 4) = UASTsDataFrame" by blast
  from c d 1 2 show ?thesis by (intro conjI)
qed

section \<open>Failure of the engine during \<open>Engine.__init__\<close>\<close>

text \<open>
  When \<open>Engine.apply\<close> raises \<open>e\<close>, the constructor raises \<open>init_handler e\<close> after a single
  \<open>Engine.apply\<close> request: the package message for a \<open>TypeError\<close> whose first argument
  contains \<open>JavaPackage\<close>, and \<open>e\<close> itself for another class or for a \<open>TypeError\<close> whose
  first argument does not contain it.
\<close>

lemma Engine_init_apply_raises:
  assumes p: "\<And>tr rq. \<exists>v. pyspark w tr rq = Inr v"
    and b: "\<And>tr. bridge w tr (Engine_apply_request sess repos_path repos_format) = Inl e"
  shows "Engine_init w sess repos_path repos_format skip_cleanup skip_read_errors tr =
           (Inl (init_handler e),
            tr @ [Py_call ''session.conf.set''
                    [PJava (jsparkSession sess), PStr ''spark.tech.sourced.engine.repositories.path'',
                     PStr repos_path] [],
                  Py_call ''session.conf.set''
                    [PJava (jsparkSession sess), PStr ''spark.tech.sourced.engine.repositories.format'',
                     PStr repos_format] [],
                  Py_call ''java_import''
                    [PJava (sparkContext_gateway_jvm sess), PStr ''tech.sourced.engine.Engine''] [],
                  Py_call ''java_import''
                    [PJava (sparkContext_gateway_jvm sess), PStr ''tech.sourced.engine.package$''] [],
                  Engine_apply_request sess repos_path repos_format])"
proof -
  let ?r1 = "Py_call ''session.conf.set''
                    [PJava (jsparkSession sess), PStr ''spark.tech.sourced.engine.repositories.path'',
                     PStr repos_path] []"
  let ?r2 = "Py_call ''session.conf.set''
                    [PJava (jsparkSession sess), PStr ''spark.tech.sourced.engine.repositories.format'',
                     PStr repos_format] []"
  let ?r3 = "Py_call ''java_import''
                    [PJava (sparkContext_gateway_jvm sess), PStr ''tech.sourced.engine.Engine''] []"
  let ?r4 = "Py_call ''java_import''
                    [PJava (sparkContext_gateway_jvm sess), PStr ''tech.sourced.engine.package$''] []"
  from p [of tr ?r1] obtain v1 where 1: "pyspark w tr ?r1 = Inr v1" ..
  from p [of "tr @ [?r1]" ?r2] obtain v2 where 2: "pyspark w (tr @ [?r1]) ?r2 = Inr v2" ..
  from p [of "tr @ [?r1, ?r2]" ?r3] obtain v3 where 3: "pyspark w (tr @ [?r1, ?r2]) ?r3 = Inr v3" ..
  from p [of "tr @ [?r1, ?r2, ?r3]" ?r4] obtain v4
    where 4: "pyspark w (tr @ [?r1, ?r2, ?r3]) ?r4 = Inr v4" ..
  show ?thesis
    by (simp add: Engine_init_def io_bind_def py_request_def jvm_request_def 1 2 3 4 b)
qed

lemma init_handler_package_missing:
  "exc_class e = TypeError \<Longrightarrow> args e = a # as \<Longrightarrow> str_contains ''JavaPackage'' a
     \<Longrightarrow> init_handler e = Exn Exception [package_not_found]"
  by (simp add: init_handler_def)

lemma init_handler_other:
  "exc_class e \<noteq> TypeError \<or> (\<exists>a as. args e = a # as \<and> \<not> str_contains ''JavaPackage'' a)
     \<Longrightarrow> init_handler e = e"
  by (auto simp: init_handler_def)

lemma init_handler_message:
  "args e \<noteq> [] \<Longrightarrow>
     init_handler e = (if component_missing e then Exn Exception [package_not_found] else e)"
  by (cases "args e") (simp_all add: init_handler_def component_missing_def)

text \<open>
  On a \<open>TypeError\<close> without arguments the handler's \<open>e.args[0]\<close> raises \<open>IndexError\<close>;
  a bridge that \<open>carries_message\<close> raises none.
\<close>

lemma init_handler_empty_args:
  "init_handler (Exn TypeError []) = Exn IndexError [''tuple index out of range'']"
  by (simp add: init_handler_def)

lemma last_raised_py:
  "pyspark w t (Py_call n a k) = Inl e \<Longrightarrow> last_raised w (t @ [Py_call n a k]) = Some e"
  by (simp add: last_raised_def raised_def)

lemma last_raised_call:
  "bridge w t (Jvm_call r n a) = Inl e \<Longrightarrow> last_raised w (t @ [Jvm_call r n a]) = Some e"
  by (simp add: last_raised_def raised_def)

lemma last_raised_getattr:
  "bridge w t (Jvm_getattr r n) = Inl e \<Longrightarrow> last_raised w (t @ [Jvm_getattr r n]) = Some e"
  by (simp add: last_raised_def raised_def)


lemma Engine_init_tail_raises:
  assumes "io_bind (if skip_cleanup then jvm_request w (Jvm_call engine ''skipCleanup'' [PBool True])
              else io_return engine) (\<lambda>_.
     io_bind (if skip_read_errors then jvm_request w (Jvm_call engine ''skipReadErrors'' [PBool True])
              else io_return engine) (\<lambda>_.
     io_bind (jvm_request w (Jvm_getattr g ''tech.sourced.engine.package$.MODULE$'')) (\<lambda>implicits.
     io_return (R implicits)))) t = (Inl x, t')"
  shows "\<exists>rs. t' = t @ rs \<and> last_raised w t' = Some x
              \<and> last t' \<noteq> Engine_apply_request sess repos_path repos_format
              \<and> filter (\<lambda>rq. rq = Engine_apply_request sess repos_path repos_format) rs = []"
proof (cases skip_cleanup)
  case True
  note sc = True
  show ?thesis
  proof (cases "bridge w t (Jvm_call engine ''skipCleanup'' [PBool True])")
    case (Inl e)
    with assms sc have "x = e" and "t' = t @ [Jvm_call engine ''skipCleanup'' [PBool True]]"
      by (simp_all add: io_bind_def jvm_request_def)
    with Inl show ?thesis
      by (simp add: last_raised_call Engine_apply_request_def)
  next
    case 6: (Inr j6)
    let ?t6 = "t @ [Jvm_call engine ''skipCleanup'' [PBool True]]"
    show ?thesis
    proof (cases skip_read_errors)
      case True
      note sr = True
      show ?thesis
      proof (cases "bridge w ?t6 (Jvm_call engine ''skipReadErrors'' [PBool True])")
        case (Inl e)
        with assms sc sr 6 have "x = e"
          and "t' = ?t6 @ [Jvm_call engine ''skipReadErrors'' [PBool True]]"
          by (simp_all add: io_bind_def jvm_request_def)
        with Inl last_raised_call [OF Inl] show ?thesis
          by (simp add: Engine_apply_request_def)
      next
        case 7: (Inr j7)
        let ?t7 = "?t6 @ [Jvm_call engine ''skipReadErrors'' [PBool True]]"
        show ?thesis
        proof (cases "bridge w ?t7 (Jvm_getattr g ''tech.sourced.engine.package$.MODULE$'')")
          case (Inl e)
          with assms sc sr 6 7 have "x = e"
            and "t' = ?t7 @ [Jvm_getattr g ''tech.sourced.engine.package$.MODULE$'']"
            by (simp_all add: io_bind_def jvm_request_def)
          with last_raised_getattr [OF Inl] show ?thesis
            by (simp add: Engine_apply_request_def)
        next
          case (Inr j8)
          with assms sc sr 6 7 show ?thesis
            by (simp add: io_bind_def jvm_request_def io_return_def)
        qed
      qed
    next
      case False
      note sr = False
      show ?thesis
      proof (cases "bridge w ?t6 (Jvm_getattr g ''tech.sourced.engine.package$.MODULE$'')")
        case (Inl e)
        with assms sc sr 6 have "x = e"
          and "t' = ?t6 @ [Jvm_getattr g ''tech.sourced.engine.package$.MODULE$'']"
          by (simp_all add: io_bind_def jvm_request_def io_return_def)
        with last_raised_getattr [OF Inl] show ?thesis
          by (simp add: Engine_apply_request_def)
      next
        case (Inr j8)
        with assms sc sr 6 show ?thesis
          by (simp add: io_bind_def jvm_request_def io_return_def)
      qed
    qed
  qed
next
  case False
  note sc = False
  show ?thesis
  proof (cases skip_read_errors)
    case True
    note sr = True
    show ?thesis
    proof (cases "bridge w t (Jvm_call engine ''skipReadErrors'' [PBool True])")
      case (Inl e)
      with assms sc sr have "x = e"
        and "t' = t @ [Jvm_call engine ''skipReadErrors'' [PBool True]]"
        by (simp_all add: io_bind_def jvm_request_def io_return_def)
      with last_raised_call [OF Inl] show ?thesis
        by (simp add: Engine_apply_request_def)
    next
      case 7: (Inr j7)
      let ?t7 = "t @ [Jvm_call engine ''skipReadErrors'' [PBool True]]"
      show ?thesis
      proof (cases "bridge w ?t7 (Jvm_getattr g ''tech.sourced.engine.package$.MODULE$'')")
        case (Inl e)
        with assms sc sr 7 have "x = e"
          and "t' = ?t7 @ [Jvm_getattr g ''tech.sourced.engine.package$.MODULE$'']"
          by (simp_all add: io_bind_def jvm_request_def io_return_def)
        with last_raised_getattr [OF Inl] show ?thesis
          by (simp add: Engine_apply_request_def)
      next
        case (Inr j8)
        with assms sc sr 7 show ?thesis
          by (simp add: io_bind_def jvm_request_def io_return_def)
      qed
    qed
  next
    case False
    note sr = False
    show ?thesis
    proof (cases "bridge w t (Jvm_getattr g ''tech.sourced.engine.package$.MODULE$'')")
      case (Inl e)
      with assms sc sr have "x = e"
        and "t' = t @ [Jvm_getattr g ''tech.sourced.engine.package$.MODULE$'']"
        by (simp_all add: io_bind_def jvm_request_def io_return_def)
      with last_raised_getattr [OF Inl] show ?thesis
        by (simp add: Engine_apply_request_def)
    next
      case (Inr j8)
      with assms sc sr show ?thesis
        by (simp add: io_bind_def jvm_request_def io_return_def)
    qed
  qed
qed


lemma io_bind_Inr: "m t = (Inr y, t') \<Longrightarrow> io_bind m f t = f y t'"
  by (simp add: io_bind_def)

lemma Engine_init_raises:
  assumes cm: "carries_message w"
    and r: "Engine_init w sess repos_path repos_format skip_cleanup skip_read_errors tr = (Inl x, tr')"
  shows "(\<exists>e. last_raised w tr' = Some e
            \<and> x = (if last tr' = Engine_apply_request sess repos_path repos_format
                        \<and> component_missing e
                     then Exn Exception [package_not_found] else e))
         \<and> length (filter (\<lambda>rq. rq = Engine_apply_request sess repos_path repos_format)
                     (drop (length tr) tr')) \<le> 1"
proof -
  let ?r1 = "Py_call ''session.conf.set''
               [PJava (jsparkSession sess), PStr ''spark.tech.sourced.engine.repositories.path'',
                PStr repos_path] []"
  let ?r2 = "Py_call ''session.conf.set''
               [PJava (jsparkSession sess), PStr ''spark.tech.sourced.engine.repositories.format'',
                PStr repos_format] []"
  let ?r3 = "Py_call ''java_import''
               [PJava (sparkContext_gateway_jvm sess), PStr ''tech.sourced.engine.Engine''] []"
  let ?r4 = "Py_call ''java_import''
               [PJava (sparkContext_gateway_jvm sess), PStr ''tech.sourced.engine.package$''] []"
  let ?ap = "Engine_apply_request sess repos_path repos_format"
  let ?t1 = "tr @ [?r1]"
  let ?t2 = "?t1 @ [?r2]"
  let ?t3 = "?t2 @ [?r3]"
  let ?t4 = "?t3 @ [?r4]"
  let ?t5 = "?t4 @ [?ap]"
  note d = Engine_init_def io_bind_def py_request_def jvm_request_def
  show ?thesis
  proof (cases "pyspark w tr ?r1")
    case (Inl e)
    with r have "x = e" and "tr' = ?t1" by (simp_all add: d)
    with last_raised_py [OF Inl] show ?thesis by (simp add: Engine_apply_request_def)
  next
    case 1: (Inr v1)
    show ?thesis
    proof (cases "pyspark w ?t1 ?r2")
      case (Inl e)
      with r 1 have "x = e" and "tr' = ?t2" by (simp_all add: d)
      with last_raised_py [OF Inl] show ?thesis by (simp add: Engine_apply_request_def)
    next
      case 2: (Inr v2)
      show ?thesis
      proof (cases "pyspark w ?t2 ?r3")
        case (Inl e)
        with r 1 2 have "x = e" and "tr' = ?t3" by (simp_all add: d)
        with last_raised_py [OF Inl] show ?thesis by (simp add: Engine_apply_request_def)
      next
        case 3: (Inr v3)
        show ?thesis
        proof (cases "pyspark w ?t3 ?r4")
          case (Inl e)
          with r 1 2 3 have "x = e" and "tr' = ?t4" by (simp_all add: d)
          with last_raised_py [OF Inl] show ?thesis by (simp add: Engine_apply_request_def)
        next
          case 4: (Inr v4)
          show ?thesis
          proof (cases "bridge w ?t4 ?ap")
            case (Inl e)
            from cm Inl have "args e \<noteq> []" by (auto simp: carries_message_def)
            then have h: "init_handler e
                 = (if component_missing e then Exn Exception [package_not_found] else e)"
              by (rule init_handler_message)
            from r 1 2 3 4 Inl have "x = init_handler e" and "tr' = ?t5" by (simp_all add: d)
            moreover have "last_raised w ?t5 = Some e"
              using Inl unfolding Engine_apply_request_def by (rule last_raised_call)
            ultimately show ?thesis
              using h by (simp add: Engine_apply_request_def)
          next
            case 5: (Inr engine)
            have s1: "io_bind (py_request w ?r1) f tr = f v1 ?t1" for f :: "pyval \<Rightarrow> Engine io"
              using 1 by (simp add: io_bind_def py_request_def)
            have s2: "io_bind (py_request w ?r2) f ?t1 = f v2 ?t2" for f :: "pyval \<Rightarrow> Engine io"
              using 2 by (simp add: io_bind_def py_request_def)
            have s3: "io_bind (py_request w ?r3) f ?t2 = f v3 ?t3" for f :: "pyval \<Rightarrow> Engine io"
              using 3 by (simp add: io_bind_def py_request_def)
            have s4: "io_bind (py_request w ?r4) f ?t3 = f v4 ?t4" for f :: "pyval \<Rightarrow> Engine io"
              using 4 by (simp add: io_bind_def py_request_def)
            have s5: "io_bind (\<lambda>tr. case jvm_request w ?ap tr of
                         (Inl e, tr') \<Rightarrow> (Inl (init_handler e), tr')
                       | (Inr engine, tr') \<Rightarrow> (Inr engine, tr')) f ?t4 = f engine ?t5"
              for f :: "jref \<Rightarrow> Engine io"
              using 5 by (simp add: io_bind_def jvm_request_def)
            from r have "\<exists>rs. tr' = ?t5 @ rs \<and> last_raised w tr' = Some x
                \<and> last tr' \<noteq> ?ap \<and> filter (\<lambda>rq. rq = ?ap) rs = []"
              unfolding Engine_init_def
              by (simp only: s1 s2 s3 s4 s5) (erule Engine_init_tail_raises)
            then obtain rs where "tr' = ?t5 @ rs" and "last_raised w tr' = Some x"
              and "last tr' \<noteq> ?ap" and "filter (\<lambda>rq. rq = ?ap) rs = []"
              by (elim exE conjE)
            then show ?thesis by (simp add: Engine_apply_request_def)
          qed
        qed
      qed
    qed
  qed
qed


text \<open>
  C7. On a bridge whose exceptions carry a message: when \<open>Engine.apply\<close> fails with the
  missing-package condition, \<open>Engine.__init__\<close> raises the exception with the package
  message, and any other failure of \<open>Engine.apply\<close> is raised as it is, in both cases after
  the one \<open>Engine.apply\<close> request and with nothing requested after it. Whenever
  \<open>Engine.__init__\<close> raises at all, it raises what the foreign side raised at the last
  request, except for the missing-package condition at \<open>Engine.apply\<close>, and the trace
  holds at most one \<open>Engine.apply\<close> request.
\<close>

theorem Engine_init_failure:
  assumes "carries_message w"
  shows "((\<forall>t rq. \<exists>v. pyspark w t rq = Inr v)
           \<and> (\<forall>t. bridge w t (Engine_apply_request sess repos_path repos_format) = Inl e)
          \<longrightarrow> Engine_init w sess repos_path repos_format skip_cleanup skip_read_errors tr =
               (Inl (if component_missing e then Exn Exception [package_not_found] else e),
                tr @ [Py_call ''session.conf.set''
                        [PJava (jsparkSession sess),
                         PStr ''spark.tech.sourced.engine.repositories.path'', PStr repos_path] [],
                      Py_call ''session.conf.set''
                        [PJava (jsparkSession sess),
                         PStr ''spark.tech.sourced.engine.repositories.format'', PStr repos_format] [],
                      Py_call ''java_import''
                        [PJava (sparkContext_gateway_jvm sess), PStr ''tech.sourced.engine.Engine''] [],
                      Py_call ''java_import''
                        [PJava (sparkContext_gateway_jvm sess), PStr ''tech.sourced.engine.package$''] [],
                      Engine_apply_request sess repos_path repos_format]))
         \<and> (\<forall>x tr'. Engine_init w sess repos_path repos_format skip_cleanup skip_read_errors tr
                        = (Inl x, tr')
              \<longrightarrow> (\<exists>e. last_raised w tr' = Some e
                       \<and> x = (if last tr' = Engine_apply_request sess repos_path repos_format
                                   \<and> component_missing e
                                then Exn Exception [package_not_found] else e))
                  \<and> length (filter (\<lambda>rq. rq = Engine_apply_request sess repos_path repos_format)
                              (drop (length tr) tr')) \<le> 1)"
proof (intro conjI impI allI)
  assume a: "(\<forall>t rq. \<exists>v. pyspark w t rq = Inr v)
           \<and> (\<forall>t. bridge w t (Engine_apply_request sess repos_path repos_format) = Inl e)"
  then have p: "\<And>t rq. \<exists>v. pyspark w t rq = Inr v"
    and b: "\<And>t. bridge w t (Engine_apply_request sess repos_path repos_format) = Inl e"
    by simp_all
  from assms b [of "[]"] have "args e \<noteq> []" by (auto simp: carries_message_def)
  then have "init_handler e
               = (if component_missing e then Exn Exception [package_not_found] else e)"
    by (rule init_handler_message)
  with Engine_init_apply_raises [of w sess repos_path repos_format e skip_cleanup skip_read_errors tr,
      OF p b]
  show "Engine_init w sess repos_path repos_format skip_cleanup skip_read_errors tr =
               (Inl (if component_missing e then Exn Exception [package_not_found] else e),
                tr @ [Py_call ''session.conf.set''
                        [PJava (jsparkSession sess),
                         PStr ''spark.tech.sourced.engine.repositories.path'', PStr repos_path] [],
                      Py_call ''session.conf.set''
                        [PJava (jsparkSession sess),
                         PStr ''spark.tech.sourced.engine.repositories.format'', PStr repos_format] [],
                      Py_call ''java_import''
                        [PJava (sparkContext_gateway_jvm sess), PStr ''tech.sourced.engine.Engine''] [],
                      Py_call ''java_import''
                        [PJava (sparkContext_gateway_jvm sess), PStr ''tech.sourced.engine.package$''] [],
                      Engine_apply_request sess repos_path repos_format])"
    by simp
next
  fix x tr'
  assume r: "Engine_init w sess repos_path repos_format skip_cleanup skip_read_errors tr = (Inl x, tr')"
  from Engine_init_raises [OF assms r]
  show "\<exists>e. last_raised w tr' = Some e
            \<and> x = (if last tr' = Engine_apply_request sess repos_path repos_format
                        \<and> component_missing e
                     then Exn Exception [package_not_found] else e)"
    and "length (filter (\<lambda>rq. rq = Engine_apply_request sess repos_path repos_format)
                     (drop (length tr) tr')) \<le> 1"
    by simp_all
qed

theorem Engine_init_failure_witness:
  "carries_message missing_package_double
   \<and> component_missing (Exn TypeError [JavaPackage_not_callable])
   \<and> Engine_init missing_package_double session0 ''/repos'' ''siva'' False False [] =
       (Inl (Exn Exception [package_not_found]),
        [Py_call ''session.conf.set''
           [PJava 1, PStr ''spark.tech.sourced.engine.repositories.path'', PStr ''/repos''] [],
         Py_call ''session.conf.set''
           [PJava 1, PStr ''spark.tech.sourced.engine.repositories.format'', PStr ''siva''] [],
         Py_call ''java_import'' [PJava 2, PStr ''tech.sourced.engine.Engine''] [],
         Py_call ''java_import'' [PJava 2, PStr ''tech.sourced.engine.package$''] [],
         Engine_apply_request session0 ''/repos'' ''siva''])"
proof -
  have cm: "carries_message missing_package_double"
    by (simp add: carries_message_def missing_package_double_def)
  have c: "component_missing (Exn TypeError [JavaPackage_not_callable])"
    by (simp add: component_missing_def JavaPackage_not_callable_def quoted_def)
  have p: "\<forall>t rq. \<exists>v. pyspark missing_package_double t rq = Inr v"
    by (simp add: missing_package_double_def engine_double_def
        split: request.split list.split pyval.split)
  have b: "\<forall>t. bridge missing_package_double t (Engine_apply_request session0 ''/repos'' ''siva'')
                = Inl (Exn TypeError [JavaPackage_not_callable])"
    by (simp add: missing_package_double_def)
  have s: "jsparkSession session0 = 1" "sparkContext_gateway_jvm session0 = 2"
    by (simp_all add: session0_def)
  from Engine_init_failure [OF cm, of session0 "''/repos''" "''siva''"
      "Exn TypeError [JavaPackage_not_callable]" False False "[]", THEN conjunct1] p b
  have "Engine_init missing_package_double session0 ''/repos'' ''siva'' False False [] =
       (Inl (if component_missing (Exn TypeError [JavaPackage_not_callable])
             then Exn Exception [package_not_found]
             else Exn TypeError [JavaPackage_not_callable]),
        [] @ [Py_call ''session.conf.set''
           [PJava (jsparkSession session0), PStr ''spark.tech.sourced.engine.repositories.path'',
            PStr ''/repos''] [],
         Py_call ''session.conf.set''
           [PJava (jsparkSession session0), PStr ''spark.tech.sourced.engine.repositories.format'',
            PStr ''siva''] [],
         Py_call ''java_import''
           [PJava (sparkContext_gateway_jvm session0), PStr ''tech.sourced.engine.Engine''] [],
         Py_call ''java_import''
           [PJava (sparkContext_gateway_jvm session0), PStr ''tech.sourced.engine.package$''] [],
         Engine_apply_request session0 ''/repos'' ''siva''])"
    by blast
  with c have "Engine_init missing_package_double session0 ''/repos'' ''siva'' False False [] =
       (Inl (Exn Exception [package_not_found]),
        [Py_call ''session.conf.set''
           [PJava 1, PStr ''spark.tech.sourced.engine.repositories.path'', PStr ''/repos''] [],
         Py_call ''session.conf.set''
           [PJava 1, PStr ''spark.tech.sourced.engine.repositories.format'', PStr ''siva''] [],
         Py_call ''java_import'' [PJava 2, PStr ''tech.sourced.engine.Engine''] [],
         Py_call ''java_import'' [PJava 2, PStr ''tech.sourced.engine.package$''] [],
         Engine_apply_request session0 ''/repos'' ''siva''])"
    by (simp add: s)
  with cm c show ?thesis by (intro conjI)
qed

section \<open>\<open>ref\<close> on the HEAD name and \<open>head_ref\<close>\<close>







end
